theory Spec2Isabelle
  imports Main
begin

section \<open>Python strings\<close>

text \<open>
  A Python \<open>str\<close> is modelled as a \<open>string\<close>: the bytes of its UTF-8 encoding, a lone
  surrogate being encoded like any other code point. On encoded text, concatenation,
  equality, the substring test \<open>p in s\<close> and \<open>s.split(sep)\<close> are the operations on
  lists defined below, since the encoding of one character never occurs inside or across
  the encodings of others.

  The operations whose result depends on the Unicode character database are not fixed:
  they are the fields of the record \<open>python\<close>, which every function calling one of them
  takes as its first parameter. A statement for every \<open>py\<close> therefore holds for the
  functions of the interpreter, whatever they do on text outside ASCII.
\<close>

record python =
  py_strip :: "string \<Rightarrow> string"
  py_lower :: "string \<Rightarrow> string"
  py_upper :: "string \<Rightarrow> string"
  py_split_ws :: "string \<Rightarrow> string list"
  py_any_digit :: "string \<Rightarrow> bool"
  py_int :: "string \<Rightarrow> int option"

text \<open>
  The fields are \<open>s.strip()\<close>, \<open>s.lower()\<close>, \<open>s.upper()\<close>, \<open>s.split()\<close> without a
  separator, \<open>any(char.isdigit() for char in s)\<close>, and \<open>int(s)\<close>, where \<open>None\<close> is a
  raised \<open>ValueError\<close>.
\<close>

text \<open>\<open>s.startswith(p)\<close> and the substring test \<open>p in s\<close>.\<close>

definition startswith :: "string \<Rightarrow> string \<Rightarrow> bool" where
  "startswith p s = (take (length p) s = p)"

fun contains :: "string \<Rightarrow> string \<Rightarrow> bool" where
  "contains p [] = (p = [])"
| "contains p (c # cs) = (startswith p (c # cs) \<or> contains p cs)"

text \<open>
  \<open>s.split(sep)\<close> for a separator: the text is cut at every occurrence of \<open>sep\<close>, found
  from the left without overlap. Every call of the sources passes a non-empty literal;
  for the empty separator, where Python raises \<open>ValueError\<close>, the model returns the text
  uncut.
\<close>

function split :: "string \<Rightarrow> string \<Rightarrow> string list" where
  "split sep [] = [[]]"
| "split sep (c # cs) =
     (if sep \<noteq> [] \<and> startswith sep (c # cs)
      then [] # split sep (drop (length sep) (c # cs))
      else (case split sep cs of
              [] \<Rightarrow> [[c]]
            | p # ps \<Rightarrow> (c # p) # ps))"
  by pat_completeness auto
termination
  by (relation "measure (\<lambda>(sep, s). length s)") (auto simp: neq_Nil_conv)

subsection \<open>The interpreter on ASCII text\<close>

text \<open>
  \<open>ascii_python\<close> is the instance of \<open>python\<close> with which the examples are evaluated. It
  follows the interpreter on ASCII text: case mapping touches the letters \<open>A\<close> to \<open>Z\<close>,
  the digits are \<open>0\<close> to \<open>9\<close>, and whitespace is the ASCII whitespace of
  \<open>str.isspace\<close> (codes 9 to 13 and 28 to 32). Other bytes are carried along unchanged,
  so on text outside ASCII it is not the interpreter; no example uses it there.
\<close>

definition is_upper :: "char \<Rightarrow> bool" where
  "is_upper c = (65 \<le> (of_char c :: nat) \<and> (of_char c :: nat) \<le> 90)"

definition lower_char :: "char \<Rightarrow> char" where
  "lower_char c = (if is_upper c then char_of ((of_char c :: nat) + 32) else c)"

definition is_lower :: "char \<Rightarrow> bool" where
  "is_lower c = (97 \<le> (of_char c :: nat) \<and> (of_char c :: nat) \<le> 122)"

definition upper_char :: "char \<Rightarrow> char" where
  "upper_char c = (if is_lower c then char_of ((of_char c :: nat) - 32) else c)"

definition ascii_lower :: "string \<Rightarrow> string" where
  "ascii_lower s = map lower_char s"

definition ascii_upper :: "string \<Rightarrow> string" where
  "ascii_upper s = map upper_char s"

definition isspace :: "char \<Rightarrow> bool" where
  "isspace c = (let n = (of_char c :: nat) in (9 \<le> n \<and> n \<le> 13) \<or> (28 \<le> n \<and> n \<le> 32))"

definition isdigit :: "char \<Rightarrow> bool" where
  "isdigit c = (48 \<le> (of_char c :: nat) \<and> (of_char c :: nat) \<le> 57)"

definition lstrip :: "string \<Rightarrow> string" where
  "lstrip s = dropWhile isspace s"

definition rstrip :: "string \<Rightarrow> string" where
  "rstrip s = rev (dropWhile isspace (rev s))"

definition ascii_strip :: "string \<Rightarrow> string" where
  "ascii_strip s = rstrip (lstrip s)"

text \<open>The maximal runs of non-whitespace.\<close>

fun words_from :: "string \<Rightarrow> string \<Rightarrow> string list" where
  "words_from cur [] = (if cur = [] then [] else [rev cur])"
| "words_from cur (c # cs) =
     (if isspace c
      then (if cur = [] then words_from [] cs else rev cur # words_from [] cs)
      else words_from (c # cur) cs)"

definition ascii_split_ws :: "string \<Rightarrow> string list" where
  "ascii_split_ws s = words_from [] s"

text \<open>
  \<open>int(s)\<close>: whitespace at both ends is skipped, then an optional sign and a run of
  decimal digits, where single underscores may stand between two digits. Anything else
  raises \<open>ValueError\<close>, and so does a text of more than \<open>max_str_digits\<close> digits (4300
  unless the interpreter is configured otherwise; leading zeros count, the sign and the
  underscores do not).
\<close>

definition digit_val :: "char \<Rightarrow> nat" where
  "digit_val c = (of_char c :: nat) - 48"

fun digits_from :: "nat \<Rightarrow> string \<Rightarrow> nat option" where
  "digits_from acc [] = Some acc"
| "digits_from acc [c] = (if isdigit c then Some (10 * acc + digit_val c) else None)"
| "digits_from acc (c # d # ds) =
     (if isdigit c then digits_from (10 * acc + digit_val c) (d # ds)
      else if c = CHR ''_'' \<and> isdigit d then digits_from (10 * acc + digit_val d) ds
      else None)"

definition parse_nat :: "string \<Rightarrow> nat option" where
  "parse_nat s = (case s of
       [] \<Rightarrow> None
     | c # cs \<Rightarrow> if isdigit c then digits_from (digit_val c) cs else None)"

definition max_str_digits :: nat where
  "max_str_digits = 4300"

text \<open>The whitespace that \<open>int\<close> skips at both ends: codes 9 to 13 and 32.\<close>

definition int_space :: "char \<Rightarrow> bool" where
  "int_space c = (let n = (of_char c :: nat) in (9 \<le> n \<and> n \<le> 13) \<or> n = 32)"

definition ascii_int :: "string \<Rightarrow> int option" where
  "ascii_int s =
     (if length (filter isdigit s) > max_str_digits then None
      else (case rev (dropWhile int_space (rev (dropWhile int_space s))) of
              [] \<Rightarrow> None
            | c # cs \<Rightarrow>
                if c = CHR ''-'' then map_option (\<lambda>n. - int n) (parse_nat cs)
                else if c = CHR ''+'' then map_option int (parse_nat cs)
                else map_option int (parse_nat (c # cs))))"

definition ascii_python :: python where
  "ascii_python = \<lparr>
     py_strip = ascii_strip,
     py_lower = ascii_lower,
     py_upper = ascii_upper,
     py_split_ws = ascii_split_ws,
     py_any_digit = list_ex isdigit,
     py_int = ascii_int \<rparr>"

section \<open>The game master: state and marker parser\<close>

text \<open>The exceptions that the modelled code can raise.\<close>

datatype exn =
    ValueError
  | TypeError
  | IndexError
  | AttributeError
  | EOFError
  | JSONDecodeError
  | ApiError string

text \<open>\<open>class GameState\<close>; \<open>None\<close> for the monster and the discovered item is \<open>None\<close>.\<close>

record GameState =
  player_health :: int
  player_inventory :: "string list"
  current_location :: string
  game_over :: bool
  combat_active :: bool
  monster :: "string option"
  item_discovered :: "string option"
  last_action :: string

definition GameState_init :: GameState where
  "GameState_init = \<lparr>
     player_health = 100,
     player_inventory = [],
     current_location = ''Forest Entrance'',
     game_over = False,
     combat_active = False,
     monster = None,
     item_discovered = None,
     last_action = [] \<rparr>"

text \<open>
  The three agent objects of \<open>GameMaster\<close>; \<open>current_agent\<close> refers to one of them,
  and \<open>agent_name\<close> is the label printed in the prompt.
\<close>

datatype gm_agent = NarratorAgent | MonsterAgent | ItemAgent

record GameMaster =
  state :: GameState
  current_agent :: gm_agent
  agent_name :: string

definition GameMaster_init :: GameMaster where
  "GameMaster_init = \<lparr>
     state = GameState_init,
     current_agent = NarratorAgent,
     agent_name = ''Narrator'' \<rparr>"

text \<open>
  \<open>GameMaster.process_response\<close>. The result is the raised exception, or the game master
  after the side effects together with the returned display text. \<open>parts[1]\<close> and
  \<open>parts[0]\<close> are read through a \<open>case\<close>, with \<open>IndexError\<close> where the list is too short,
  as indexing does in Python.
\<close>

definition process_response :: "python \<Rightarrow> GameMaster \<Rightarrow> string \<Rightarrow> exn + (GameMaster \<times> string)" where
  "process_response py gm response =
    (if contains ''HANDOFF_MONSTER:'' response then
       (case split ''HANDOFF_MONSTER:'' response of
          p0 # p1 # _ \<Rightarrow>
            Inr (gm\<lparr>state := (state gm)\<lparr>monster := Some (py_strip py p1), combat_active := True\<rparr>,
                    current_agent := MonsterAgent,
                    agent_name := ''Monster''\<rparr>,
                 py_strip py p0)
        | _ \<Rightarrow> Inl IndexError)
     else if contains ''HANDOFF_ITEM:'' response then
       (case split ''HANDOFF_ITEM:'' response of
          p0 # p1 # _ \<Rightarrow>
            Inr (gm\<lparr>state := (state gm)\<lparr>item_discovered := Some (py_strip py p1)\<rparr>,
                    current_agent := ItemAgent,
                    agent_name := ''Item''\<rparr>,
                 py_strip py p0)
        | _ \<Rightarrow> Inl IndexError)
     else if contains ''HANDOFF_NARRATOR'' response then
       (let parts = split ''HANDOFF_NARRATOR'' response;
            gm' = gm\<lparr>state := (state gm)\<lparr>combat_active := False, monster := None,
                                            item_discovered := None\<rparr>,
                     current_agent := NarratorAgent,
                     agent_name := ''Narrator''\<rparr>
        in if length parts > 1
           then (case parts of p0 # _ \<Rightarrow> Inr (gm', py_strip py p0) | [] \<Rightarrow> Inl IndexError)
           else Inr (gm', response))
     else if contains ''UPDATE_LOCATION:'' response then
       (case split ''UPDATE_LOCATION:'' response of
          p0 # p1 # _ \<Rightarrow>
            Inr (gm\<lparr>state := (state gm)\<lparr>current_location := py_strip py p1\<rparr>\<rparr>, py_strip py p0)
        | _ \<Rightarrow> Inl IndexError)
     else if contains ''DAMAGE_PLAYER:'' response then
       (case split ''DAMAGE_PLAYER:'' response of
          p0 # p1 # _ \<Rightarrow>
            (case py_int py (py_strip py p1) of
               None \<Rightarrow> Inl ValueError
             | Some damage \<Rightarrow>
                 (let s1 = (state gm)\<lparr>player_health := player_health (state gm) - damage\<rparr>;
                      s2 = (if player_health s1 \<le> 0
                            then s1\<lparr>player_health := 0, game_over := True\<rparr>
                            else s1)
                  in Inr (gm\<lparr>state := s2\<rparr>, py_strip py p0)))
        | _ \<Rightarrow> Inl IndexError)
     else if contains ''HEAL_PLAYER:'' response then
       (case split ''HEAL_PLAYER:'' response of
          p0 # p1 # _ \<Rightarrow>
            (case py_int py (py_strip py p1) of
               None \<Rightarrow> Inl ValueError
             | Some heal \<Rightarrow>
                 Inr (gm\<lparr>state := (state gm)\<lparr>player_health := player_health (state gm) + heal\<rparr>\<rparr>,
                      py_strip py p0))
        | _ \<Rightarrow> Inl IndexError)
     else if contains ''ADD_ITEM:'' response then
       (case split ''ADD_ITEM:'' response of
          p0 # p1 # _ \<Rightarrow>
            Inr (gm\<lparr>state := (state gm)\<lparr>player_inventory :=
                                            player_inventory (state gm) @ [py_strip py p1]\<rparr>\<rparr>,
                 py_strip py p0)
        | _ \<Rightarrow> Inl IndexError)
     else Inr (gm, response))"

section \<open>Transcripts and the completion boundary\<close>

text \<open>
  A requested tool call as the provider sends it: \<open>tool_call.id\<close>,
  \<open>tool_call.function.name\<close> and \<open>tool_call.function.arguments\<close> (JSON text).
\<close>

record tool_call =
  tc_id :: string
  tc_name :: string
  tc_arguments :: string

text \<open>
  The values handed to \<open>json.dumps\<close> by the travel designer's tool dispatch: one of the
  four constant catalogues, or one of the two fallback texts.
\<close>

datatype tool_output =
    FlightsCatalogue
  | HotelsCatalogue
  | AttractionsCatalogue
  | RestaurantsCatalogue
  | ToolNotAvailable
  | ToolErrorText

datatype tool_content = Text string | JsonDumps tool_output

text \<open>The dictionaries appended to a transcript, one constructor for each shape.\<close>

datatype message =
    SystemMsg string
  | UserMsg string
  | AssistantMsg "string option"
  | AssistantToolCalls "tool_call list"
  | ToolMsg (tool_call_id: string) (tool_name: string) (tool_content: tool_content)

text \<open>
  \<open>response.choices[0].message\<close>: the requested tool calls (\<open>None\<close> and the empty list
  are both the empty list here, since the code only tests truthiness) and the content.
\<close>

record completion =
  tool_calls :: "tool_call list"
  content :: "string option"

section \<open>The game master: tool-call loop and game loop\<close>

datatype gm_tool = RollDiceTool | GenerateEventTool

text \<open>
  Everything outside the program is taken as a parameter, threaded through a world
  \<open>'w\<close> (the remote model, the random generator): the completion endpoint, the JSON
  decoder and the two tool handlers, which draw random numbers. \<open>'j\<close> is the type of
  decoded JSON values. A handler or the endpoint may raise.
\<close>

record ('w, 'j) gm_env =
  gm_client :: "'w \<Rightarrow> message list \<Rightarrow> gm_tool list option \<Rightarrow> (exn + completion) \<times> 'w"
  gm_loads :: "string \<Rightarrow> 'j option"
  roll_dice :: "'w \<Rightarrow> 'j \<Rightarrow> (exn + string) \<times> 'w"
  generate_event :: "'w \<Rightarrow> 'j \<Rightarrow> (exn + string) \<times> 'w"

text \<open>
  The \<open>for tool_call in message.tool_calls\<close> loop of \<open>BaseAgent._process_tool_calls\<close>:
  the messages appended so far are the accumulator; an exception (undecodable arguments,
  a failing handler) leaves the loop.
\<close>

fun gm_dispatch ::
  "('w, 'j) gm_env \<Rightarrow> 'w \<Rightarrow> message list \<Rightarrow> tool_call list \<Rightarrow> (exn + message list) \<times> 'w" where
  "gm_dispatch env w messages [] = (Inr messages, w)"
| "gm_dispatch env w messages (tc # tcs) =
     (let function_name = tc_name tc in
      case gm_loads env (tc_arguments tc) of
        None \<Rightarrow> (Inl JSONDecodeError, w)
      | Some function_args \<Rightarrow>
          (case (if function_name = ''roll_dice'' then roll_dice env w function_args
                 else if function_name = ''generate_event'' then generate_event env w function_args
                 else (Inr (''Error: Unknown function '' @ function_name), w)) of
             (Inl e, w') \<Rightarrow> (Inl e, w')
           | (Inr result, w') \<Rightarrow>
               gm_dispatch env w' (messages @ [ToolMsg (tc_id tc) function_name (Text result)]) tcs))"

text \<open>
  One pass of the \<open>while True\<close> body after a response with tool calls: the assistant
  message with the requests is appended, then one tool message for each request.
\<close>

definition gm_round ::
  "('w, 'j) gm_env \<Rightarrow> 'w \<Rightarrow> message list \<Rightarrow> tool_call list \<Rightarrow> (exn + message list) \<times> 'w" where
  "gm_round env w messages calls = gm_dispatch env w (messages @ [AssistantToolCalls calls]) calls"

text \<open>
  \<open>BaseAgent._process_tool_calls\<close>. The loop has no bound, so the model is a partial
  function: \<open>None\<close> is a run that never returns. The list \<open>messages\<close> is extended in
  place by the code, so a normal return gives the returned content together with the
  list as the loop leaves it.
\<close>

partial_function (option) process_tool_calls_gm ::
  "('w, 'j) gm_env \<Rightarrow> gm_tool list \<Rightarrow> 'w \<Rightarrow> message list \<Rightarrow>
     ((exn + string option \<times> message list) \<times> 'w) option" where
  "process_tool_calls_gm env tools w messages =
     (case gm_client env w messages (if tools \<noteq> [] then Some tools else None) of
        (Inl e, w1) \<Rightarrow> Some (Inl e, w1)
      | (Inr response, w1) \<Rightarrow>
          if tool_calls response = [] then Some (Inr (content response, messages), w1)
          else (case gm_round env w1 messages (tool_calls response) of
                  (Inl e, w2) \<Rightarrow> Some (Inl e, w2)
                | (Inr messages', w2) \<Rightarrow> process_tool_calls_gm env tools w2 messages'))"

declare process_tool_calls_gm.simps [code]

text \<open>\<open>str\<close> of an integer and of an optional string, and \<open>sep.join(xs)\<close>.\<close>

definition digit_char :: "nat \<Rightarrow> char" where
  "digit_char n = char_of (48 + n)"

function str_nat :: "nat \<Rightarrow> string" where
  "str_nat n = (if n < 10 then [digit_char n] else str_nat (n div 10) @ [digit_char (n mod 10)])"
  by pat_completeness auto
termination
  by (relation "measure id") auto

definition str_int :: "int \<Rightarrow> string" where
  "str_int i = (if i < 0 then CHR ''-'' # str_nat (nat (- i)) else str_nat (nat i))"

definition str_opt :: "string option \<Rightarrow> string" where
  "str_opt x = (case x of None \<Rightarrow> ''None'' | Some s \<Rightarrow> s)"

fun join :: "string \<Rightarrow> string list \<Rightarrow> string" where
  "join sep [] = []"
| "join sep [x] = x"
| "join sep (x # y # ys) = x @ sep @ join sep (y # ys)"

text \<open>The constructor arguments of the three agents and their \<open>_get_state_info\<close>.\<close>

definition system_message :: "gm_agent \<Rightarrow> string" where
  "system_message a = (case a of
     NarratorAgent \<Rightarrow>
       ''You are the narrator of a fantasy adventure game. Describe the environment, progress the story, '' @
       ''and respond to player actions. Use tools for game mechanics. When combat starts, output exactly: '' @
       [CHR 0x27] @ ''HANDOFF_MONSTER: [monster name]'' @ [CHR 0x27] @
       ''. When an item is discovered, output exactly: '' @
       [CHR 0x27] @ ''HANDOFF_ITEM: [item name]'' @ [CHR 0x27] @ ''.''
   | MonsterAgent \<Rightarrow>
       ''You handle combat encounters. Describe monster actions, calculate damage using dice rolls, '' @
       ''and manage combat mechanics. Hand back to NarratorAgent when combat ends by outputting exactly: '' @
       [CHR 0x27] @ ''HANDOFF_NARRATOR'' @ [CHR 0x27] @ ''. Use dice roll tool for combat mechanics.''
   | ItemAgent \<Rightarrow>
       ''You handle item discovery and inventory management. Describe discovered items, manage player inventory. '' @
       ''Hand back to NarratorAgent when done by outputting exactly: '' @
       [CHR 0x27] @ ''HANDOFF_NARRATOR'' @ [CHR 0x27] @ ''.'')"

definition agent_tools :: "gm_agent \<Rightarrow> gm_tool list" where
  "agent_tools a = (case a of
     NarratorAgent \<Rightarrow> [RollDiceTool, GenerateEventTool]
   | MonsterAgent \<Rightarrow> [RollDiceTool]
   | ItemAgent \<Rightarrow> [])"

definition inventory_text :: "string list \<Rightarrow> string" where
  "inventory_text items = (if items \<noteq> [] then join '', '' items else ''Empty'')"

definition get_state_info :: "gm_agent \<Rightarrow> GameState \<Rightarrow> string" where
  "get_state_info a s = (case a of
     NarratorAgent \<Rightarrow>
       ''Location: '' @ current_location s @ ''\<newline>'' @
       ''Health: '' @ str_int (player_health s) @ '' HP\<newline>'' @
       ''Inventory: '' @ inventory_text (player_inventory s) @ ''\<newline>'' @
       ''Last Action: '' @ last_action s
   | MonsterAgent \<Rightarrow>
       ''Combat with: '' @ str_opt (monster s) @ ''\<newline>'' @
       ''Player Health: '' @ str_int (player_health s) @ '' HP\<newline>'' @
       ''Last Action: '' @ last_action s
   | ItemAgent \<Rightarrow>
       ''Discovered Item: '' @ str_opt (item_discovered s) @ ''\<newline>'' @
       ''Player Inventory: '' @ inventory_text (player_inventory s))"

text \<open>
  \<open>BaseAgent.generate_response\<close>, for the agent \<open>a\<close> on the shared game state: the
  list of messages is local to the call, and only the content is returned.
\<close>

definition generate_response ::
  "('w, 'j) gm_env \<Rightarrow> gm_agent \<Rightarrow> GameState \<Rightarrow> 'w \<Rightarrow> string \<Rightarrow> ((exn + string option) \<times> 'w) option" where
  "generate_response env a s w player_input =
     (let state_info = get_state_info a s;
          full_input = state_info @ ''\<newline>\<newline>Player: '' @ player_input;
          messages = [SystemMsg (system_message a), UserMsg full_input]
      in map_option (\<lambda>(result, w'). (map_sum id fst result, w'))
           (process_tool_calls_gm env (agent_tools a) w messages))"

text \<open>What \<open>display_status\<close> prints (the colours of \<open>termcolor\<close> are left out).\<close>

definition display_status :: "GameMaster \<Rightarrow> string list" where
  "display_status gm =
     [''\<newline>=== ADVENTURE STATUS ==='',
      ''Health: '' @ str_int (player_health (state gm)) @ '' HP'',
      ''Inventory: '' @ inventory_text (player_inventory (state gm)),
      ''Location: '' @ current_location (state gm)]
     @ (if combat_active (state gm) then [''Combat with: '' @ str_opt (monster (state gm))]
        else (case item_discovered (state gm) of
                Some i \<Rightarrow> (if i \<noteq> [] then [''Discovered: '' @ i] else [])
              | None \<Rightarrow> []))
     @ [''========================'']"

text \<open>
  How a run of one of the programs ends: it falls off the end of the script (exit code
  0), or an exception nobody catches ends the interpreter (exit code 1).
\<close>

datatype ending = Finished | Uncaught exn

definition exit_code :: "ending \<Rightarrow> nat" where
  "exit_code e = (case e of Finished \<Rightarrow> 0 | Uncaught _ \<Rightarrow> 1)"

text \<open>
  One turn of the loop of \<open>GameMaster.start_game\<close>, behind the test for \<open>quit\<close>: the
  line is stored as the last action, the current agent answers, the answer is processed
  and printed, and the health is tested. The first component of the result is how the run
  ends, or \<open>None\<close> when the loop goes on; \<open>out\<close> collects what is written to standard
  output, one entry for each \<open>print\<close> and each prompt of \<open>input\<close>. The result is \<open>None\<close>
  when the completion loop inside never returns.
\<close>

definition game_turn ::
  "python \<Rightarrow> ('w, 'j) gm_env \<Rightarrow> GameMaster \<Rightarrow> 'w \<Rightarrow> string list \<Rightarrow> string \<Rightarrow>
     (ending option \<times> GameMaster \<times> 'w \<times> string list) option" where
  "game_turn py env gm w out user_input =
     (let gm1 = gm\<lparr>state := (state gm)\<lparr>last_action := user_input\<rparr>\<rparr> in
      case generate_response env (current_agent gm1) (state gm1) w user_input of
        None \<Rightarrow> None
      | Some (Inl e, w1) \<Rightarrow> Some (Some (Uncaught e), gm1, w1, out)
      | Some (Inr None, w1) \<Rightarrow> Some (Some (Uncaught TypeError), gm1, w1, out)
      | Some (Inr (Some response), w1) \<Rightarrow>
          (case process_response py gm1 response of
             Inl e \<Rightarrow> Some (Some (Uncaught e), gm1, w1, out)
           | Inr (gm2, processed_response) \<Rightarrow>
               (let out2 = out @ [''\<newline>'' @ agent_name gm2 @ '': '' @ processed_response @ ''\<newline>'']
                in if player_health (state gm2) \<le> 0
                   then Some (Some Finished, gm2, w1, out2 @ [''Game Over! You have been defeated.''])
                   else Some (None, gm2, w1, out2))))"

text \<open>
  The \<open>while not self.state.game_over\<close> loop of \<open>GameMaster.start_game\<close>, over the
  lines that standard input still holds. Reading at the end of the input raises
  \<open>EOFError\<close>.
\<close>

fun game_loop ::
  "python \<Rightarrow> ('w, 'j) gm_env \<Rightarrow> GameMaster \<Rightarrow> 'w \<Rightarrow> string list \<Rightarrow> string list \<Rightarrow>
     (ending \<times> GameMaster \<times> 'w \<times> string list) option" where
  "game_loop py env gm w out [] =
     (if game_over (state gm) then Some (Finished, gm, w, out)
      else Some (Uncaught EOFError, gm, w, out @ display_status gm @ [agent_name gm @ '' > '']))"
| "game_loop py env gm w out (line # rest) =
     (if game_over (state gm) then Some (Finished, gm, w, out)
      else
        (let out1 = out @ display_status gm @ [agent_name gm @ '' > ''];
             user_input = py_strip py line
         in if py_lower py user_input = ''quit'' then Some (Finished, gm, w, out1 @ [''Thanks for playing!''])
            else
              (case game_turn py env gm w out1 user_input of
                 None \<Rightarrow> None
               | Some (Some e, gm2, w1, out2) \<Rightarrow> Some (e, gm2, w1, out2)
               | Some (None, gm2, w1, out2) \<Rightarrow> game_loop py env gm2 w1 out2 rest)))"

text \<open>\<open>GameMaster.start_game\<close>: the banner, the opening narration, then the loop.\<close>

definition start_game ::
  "python \<Rightarrow> ('w, 'j) gm_env \<Rightarrow> GameMaster \<Rightarrow> 'w \<Rightarrow> string list \<Rightarrow>
     (ending \<times> GameMaster \<times> 'w \<times> string list) option" where
  "start_game py env gm w stdin =
     (let out0 = [''Welcome to the Fantasy Adventure Game!'',
                  ''Type '' @ [CHR 0x27] @ ''quit'' @ [CHR 0x27] @ '' at any time to exit the game\<newline>'']
      in case generate_response env NarratorAgent (state gm) w ''Begin the adventure'' of
           None \<Rightarrow> None
         | Some (Inl e, w1) \<Rightarrow> Some (Uncaught e, gm, w1, out0)
         | Some (Inr response, w1) \<Rightarrow>
             game_loop py env gm w1 (out0 @ [''\<newline>Narrator: '' @ str_opt response @ ''\<newline>'']) stdin)"

section \<open>The career mentor\<close>

text \<open>The pictographs of the messages, as their UTF-8 bytes.\<close>

definition emoji_books :: string where
  "emoji_books = [CHR 0xF0, CHR 0x9F, CHR 0x93, CHR 0x9A]"

definition emoji_warning :: string where
  "emoji_warning = [CHR 0xE2, CHR 0x9A, CHR 0xA0, CHR 0xEF, CHR 0xB8, CHR 0x8F]"

definition emoji_rocket :: string where
  "emoji_rocket = [CHR 0xF0, CHR 0x9F, CHR 0x9A, CHR 0x80]"

definition emoji_magnifier :: string where
  "emoji_magnifier = [CHR 0xF0, CHR 0x9F, CHR 0x94, CHR 0x8D]"

definition emoji_briefcase :: string where
  "emoji_briefcase = [CHR 0xF0, CHR 0x9F, CHR 0x92, CHR 0xBC]"

definition emoji_star :: string where
  "emoji_star = [CHR 0xF0, CHR 0x9F, CHR 0x8C, CHR 0x9F]"

definition emoji_wave :: string where
  "emoji_wave = [CHR 0xF0, CHR 0x9F, CHR 0x91, CHR 0x8B]"

text \<open>The table of \<open>get_career_roadmap\<close>, in the order of the dictionary.\<close>

definition roadmaps :: "(string \<times> string list) list" where
  "roadmaps =
    [(''Software Engineer'',
        [''1. Programming fundamentals (Python/Java)'',
         ''2. Data structures & algorithms'',
         ''3. Version control (Git)'',
         ''4. Software design patterns'',
         ''5. Cloud computing basics'',
         ''6. CI/CD pipelines'']),
     (''Web Developer'',
        [''1. HTML, CSS, JavaScript fundamentals'',
         ''2. Git & GitHub version control'',
         ''3. Frontend Frameworks (React, Next.js)'',
         ''4. Backend Development (Node.js, Express)'',
         ''5. Databases (MongoDB, PostgreSQL)'',
         ''6. Deployment (Vercel, Netlify)'']),
     (''Data Scientist'',
        [''1. Python, Pandas, NumPy'',
         ''2. Data Visualization (Matplotlib, Seaborn)'',
         ''3. Machine Learning (scikit-learn, TensorFlow)'',
         ''4. SQL for data querying'',
         ''5. Statistical Analysis'',
         ''6. Model Deployment'']),
     (''UX Designer'',
        [''1. User Research Methods'',
         ''2. Wireframing & Prototyping'',
         ''3. UI Design Principles'',
         ''4. Design Tools (Figma, Sketch)'',
         ''5. Usability Testing'',
         ''6. Interaction Design'']),
     (''Cybersecurity Analyst'',
        [''1. Network Security Fundamentals'',
         ''2. Security Protocols & Cryptography'',
         ''3. Ethical Hacking Techniques'',
         ''4. Security Compliance Standards'',
         ''5. Incident Response'',
         ''6. Threat Intelligence''])]"

definition get_career_roadmap :: "python \<Rightarrow> string \<Rightarrow> string" where
  "get_career_roadmap py career =
     (let normalized_career = py_lower py career in
      case find (\<lambda>(key, _). py_lower py key = normalized_career) roadmaps of
        Some (key, steps) \<Rightarrow>
          emoji_books @ '' '' @ key @ '' Skill Roadmap:\<newline>'' @ join ''\<newline>'' steps
      | None \<Rightarrow> emoji_warning @ '' No roadmap available for '' @ career)"

datatype cm_agent = Career | Skill | Job

text \<open>
  \<open>class CareerMentor\<close>: \<open>current_agent\<close>, the two entries of \<open>context\<close>, and
  \<open>awaiting_selection\<close>.
\<close>

record CareerMentor =
  cm_current_agent :: cm_agent
  context_career :: "string option"
  context_recommendations :: "string list"
  awaiting_selection :: bool

definition CareerMentor_init :: CareerMentor where
  "CareerMentor_init = \<lparr>
     cm_current_agent = Career,
     context_career = None,
     context_recommendations = [],
     awaiting_selection = False \<rparr>"

text \<open>The bullet list \<open>"\n".join(f"- {c}" for c in careers)\<close>.\<close>

definition bullet_list :: "string list \<Rightarrow> string" where
  "bullet_list cs = join ''\<newline>'' (map (\<lambda>c. ''- '' @ c) cs)"

text \<open>
  The loop \<open>for career in self.context["recommendations"]\<close> shared by \<open>_career_agent\<close>
  and \<open>_handle_agent_handoff\<close>: the first recommendation, in list order, whose lower-case
  form occurs in the lower-case input.
\<close>

definition matching_career :: "python \<Rightarrow> string list \<Rightarrow> string \<Rightarrow> string option" where
  "matching_career py recs normalized_input = find (\<lambda>career. contains (py_lower py career) normalized_input) recs"

definition career_agent :: "python \<Rightarrow> CareerMentor \<Rightarrow> string \<Rightarrow> CareerMentor \<times> string" where
  "career_agent py m user_input =
     (if awaiting_selection m then
        (let normalized_input = py_lower py user_input in
         case matching_career py (context_recommendations m) normalized_input of
           Some career \<Rightarrow>
             (m\<lparr>context_career := Some career, awaiting_selection := False, cm_current_agent := Skill\<rparr>,
              emoji_rocket @ '' Great choice! Exploring '' @ career @ '' now...'')
         | None \<Rightarrow>
             (m, emoji_warning @ '' Please select a career from the recommendations:\<newline>'' @
                 bullet_list (context_recommendations m) @
                 ''\<newline>\<newline>Or describe your interests for new suggestions.''))
      else
        (let interests = py_lower py user_input;
             careers =
               (if contains ''data'' interests \<or> contains ''stat'' interests \<or> contains ''analy'' interests
                then [''Data Scientist'', ''Data Analyst'']
                else if contains ''design'' interests \<or> contains ''ui'' interests \<or>
                        contains ''ux'' interests \<or> contains ''interface'' interests
                then [''UX Designer'', ''Product Designer'']
                else if contains ''security'' interests \<or> contains ''cyber'' interests \<or>
                        contains ''hack'' interests
                then [''Cybersecurity Analyst'', ''Security Engineer'']
                else if contains ''web'' interests \<or> contains ''front'' interests \<or>
                        contains ''back'' interests
                then [''Web Developer'', ''Frontend Developer'', ''Backend Developer'']
                else [''Software Engineer'', ''Full Stack Developer''])
         in (m\<lparr>context_recommendations := careers, awaiting_selection := True\<rparr>,
             emoji_magnifier @ '' Based on your interests, I recommend:\<newline>'' @
             bullet_list careers @
             ''\<newline>\<newline>Please type the name of a career to explore further'')))"

text \<open>
  \<open>_skill_agent\<close>; with no career chosen, \<open>career.lower()\<close> inside
  \<open>get_career_roadmap\<close> raises \<open>AttributeError\<close>.
\<close>

definition skill_agent :: "python \<Rightarrow> CareerMentor \<Rightarrow> exn + string" where
  "skill_agent py m =
     (case context_career m of
        None \<Rightarrow> Inl AttributeError
      | Some career \<Rightarrow>
          Inr (get_career_roadmap py career @ ''\<newline>\<newline>Type '' @ [CHR 0x27] @ ''jobs'' @ [CHR 0x27] @
               '' to see career opportunities''))"

text \<open>The table of \<open>_job_agent\<close>: roles, salary and demand for each career.\<close>

definition job_data :: "(string \<times> string list \<times> string \<times> string) list" where
  "job_data =
    [(''Software Engineer'',
        [''Frontend Developer'', ''Backend Developer'', ''Full Stack Engineer'', ''DevOps Engineer''],
        ''$80k-$160k'', ''High across all industries''),
     (''Web Developer'',
        [''Frontend Developer'', ''Backend Developer'', ''Full Stack Developer''],
        ''$70k-$140k'', ''Strong in tech and e-commerce''),
     (''Data Scientist'',
        [''Data Analyst'', ''Machine Learning Engineer'', ''Business Intelligence Specialist''],
        ''$90k-$170k'', ''Growing in tech/finance/healthcare''),
     (''UX Designer'',
        [''UI Designer'', ''UX Researcher'', ''Product Designer''],
        ''$75k-$140k'', ''Strong in tech/e-commerce''),
     (''Cybersecurity Analyst'',
        [''Security Analyst'', ''Penetration Tester'', ''Security Architect''],
        ''$90k-$150k'', ''High in finance/government/tech'')]"

definition job_agent :: "python \<Rightarrow> CareerMentor \<Rightarrow> exn + string" where
  "job_agent py m =
     (case context_career m of
        None \<Rightarrow> Inl AttributeError
      | Some career \<Rightarrow>
          (let normalized_career = py_lower py career;
               matched_career =
                 (case find (\<lambda>(key, _). py_lower py key = normalized_career) job_data of
                    Some (key, _) \<Rightarrow> key
                  | None \<Rightarrow> ''Technology Professional'');
               data =
                 (case map_of job_data matched_career of
                    Some d \<Rightarrow> d
                  | None \<Rightarrow> ([''Various technical roles''],
                             ''$70k-$160k (varies by experience)'',
                             ''Strong in technology sector''))
           in case data of (roles, salary, demand) \<Rightarrow>
                Inr (emoji_briefcase @ '' Job Market for '' @ matched_career @ '':\<newline>'' @
                     ''Common Roles: '' @ join '', '' roles @ ''\<newline>'' @
                     ''Salary Range: '' @ salary @ ''\<newline>'' @
                     ''Market Demand: '' @ demand @ ''\<newline>\<newline>'' @
                     ''Type '' @ [CHR 0x27] @ ''new'' @ [CHR 0x27] @ '' to explore another career'')))"

text \<open>\<open>_handle_agent_handoff\<close>.\<close>

definition handle_agent_handoff :: "python \<Rightarrow> CareerMentor \<Rightarrow> string \<Rightarrow> CareerMentor" where
  "handle_agent_handoff py m raw_input =
     (let user_input = py_lower py raw_input;
          selected =
            (if cm_current_agent m = Career \<and> awaiting_selection m
             then matching_career py (context_recommendations m) user_input
             else None)
      in case selected of
           Some career \<Rightarrow>
             m\<lparr>context_career := Some career, awaiting_selection := False, cm_current_agent := Skill\<rparr>
         | None \<Rightarrow>
             if cm_current_agent m = Skill \<and>
                (contains ''job'' user_input \<or> contains ''opportunit'' user_input)
             then m\<lparr>cm_current_agent := Job\<rparr>
             else if cm_current_agent m = Job \<and> contains ''new'' user_input
             then m\<lparr>cm_current_agent := Career, context_career := None, awaiting_selection := False\<rparr>
             else m)"

text \<open>\<open>CareerMentor.run\<close>.\<close>

definition run :: "python \<Rightarrow> CareerMentor \<Rightarrow> string \<Rightarrow> exn + (CareerMentor \<times> string)" where
  "run py m user_input =
     (let m1 = handle_agent_handoff py m user_input in
      case cm_current_agent m1 of
        Career \<Rightarrow> Inr (career_agent py m1 user_input)
      | Skill \<Rightarrow> map_sum id (Pair m1) (skill_agent py m1)
      | Job \<Rightarrow> map_sum id (Pair m1) (job_agent py m1))"

text \<open>
  The \<open>while True\<close> loop of the main program, over the lines that standard input still
  holds; \<open>out\<close> collects what is written to standard output.
\<close>

fun mentor_loop ::
  "python \<Rightarrow> CareerMentor \<Rightarrow> string list \<Rightarrow> string list \<Rightarrow> ending \<times> CareerMentor \<times> string list" where
  "mentor_loop py m out [] = (Uncaught EOFError, m, out @ [''You: ''])"
| "mentor_loop py m out (line # rest) =
     (let out1 = out @ [''You: ''];
          user_input = py_strip py line
      in if py_lower py user_input \<in> set [''exit'', ''quit'']
         then (Finished, m, out1 @ [''Goodbye! '' @ emoji_wave])
         else (case run py m user_input of
                 Inl e \<Rightarrow> (Uncaught e, m, out1)
               | Inr (m', response) \<Rightarrow>
                   mentor_loop py m' (out1 @ [''\<newline>Mentor: '' @ response @ ''\<newline>'']) rest))"

definition mentor_main :: "python \<Rightarrow> string list \<Rightarrow> ending \<times> CareerMentor \<times> string list" where
  "mentor_main py stdin =
     mentor_loop py CareerMentor_init
       [emoji_star @ '' Career Mentor Agent '' @ emoji_star,
        ''Describe your interests (e.g. '' @ [CHR 0x27] @ ''I enjoy problem solving with data'' @ [CHR 0x27] @ '')'',
        ''Type '' @ [CHR 0x27] @ ''exit'' @ [CHR 0x27] @ '' to quit\<newline>'']
       stdin"

section \<open>The travel designer\<close>

definition emoji_cross :: string where
  "emoji_cross = [CHR 0xE2, CHR 0x9D, CHR 0x8C]"

definition emoji_plane :: string where
  "emoji_plane = [CHR 0xE2, CHR 0x9C, CHR 0x88, CHR 0xEF, CHR 0xB8, CHR 0x8F]"

text \<open>The four tool specifications of \<open>get_openai_tools\<close> (their schemas are constants).\<close>

datatype td_tool = GetFlightsTool | SuggestHotelsTool | GetAttractionsTool | GetRestaurantsTool

definition all_tools :: "td_tool list" where
  "all_tools = [GetFlightsTool, SuggestHotelsTool, GetAttractionsTool, GetRestaurantsTool]"

record agent_def =
  ag_name :: string
  ag_instructions :: string
  ag_tools :: "td_tool list"

definition create_agent :: "string \<Rightarrow> string \<Rightarrow> td_tool list \<Rightarrow> agent_def" where
  "create_agent name instructions tools = \<lparr>ag_name = name, ag_instructions = instructions, ag_tools = tools\<rparr>"

definition destination_agent :: agent_def where
  "destination_agent = create_agent ''Destination Specialist''
     (''Suggest travel destinations based on mood or interests. '' @
      ''Analyze user preferences and recommend exactly ONE suitable location. '' @
      ''Your response should ONLY contain the destination name in the format: '' @
      [CHR 0x27] @ ''Destination: [CITY NAME]'' @ [CHR 0x27] @ ''.'')
     []"

definition booking_agent :: agent_def where
  "booking_agent = create_agent ''Booking Specialist''
     (''Handle travel bookings. Use the following defaults: '' @
      ''Origin city: '' @ [CHR 0x27] @ ''New York'' @ [CHR 0x27] @ '', Departure date: 7 days from today, '' @
      ''Return date: 14 days from today. '' @
      ''Use tools to find flights and hotels. '' @
      ''When bookings are complete, say: '' @ [CHR 0x27] @ ''BOOKINGS COMPLETE'' @ [CHR 0x27] @ ''.'')
     all_tools"

definition explore_agent :: agent_def where
  "explore_agent = create_agent ''Exploration Specialist''
     (''Suggest attractions and restaurants. '' @
      ''Use tools to find points of interest and dining options. '' @
      ''Provide comprehensive exploration plans.'')
     all_tools"

text \<open>
  The travel designer only ever reads the text \<open>str(e)\<close> of an exception, so an exception
  is its message here. \<open>Inl\<close> of a result is a raised exception.
\<close>

type_synonym td_exception = string

text \<open>
  \<open>handoff_to_agent\<close>: the first message is overwritten with the next agent's
  instructions (an assignment that raises on an empty list) and the handoff message is
  appended.
\<close>

definition handoff_to_agent ::
  "message list \<Rightarrow> agent_def \<Rightarrow> agent_def \<Rightarrow> string \<Rightarrow> td_exception + (message list \<times> agent_def)" where
  "handoff_to_agent messages from_agent next_agent handoff_message =
     (if messages = [] then Inl ''list assignment index out of range''
      else Inr (messages[0 := SystemMsg (ag_instructions next_agent)] @ [UserMsg handoff_message],
                next_agent))"

text \<open>
  What the run does to the outside: a request to the completion endpoint, or a sleep of
  so many seconds. \<open>td_trace\<close> records these in order.
\<close>

datatype event = ApiCall | Sleep nat

record 'w TravelDesigner =
  td_messages :: "message list"
  td_current_agent :: agent_def
  user_preferences :: "string \<rightharpoonup> string"
  max_retries :: nat
  retry_delay :: nat
  full_plan :: "(string \<times> string option) list"
  td_world :: 'w
  td_trace :: "event list"

definition TravelDesigner_init :: "'w \<Rightarrow> 'w TravelDesigner" where
  "TravelDesigner_init w = \<lparr>
     td_messages = [],
     td_current_agent = destination_agent,
     user_preferences = Map.empty,
     max_retries = 5,
     retry_delay = 30,
     full_plan = [],
     td_world = w,
     td_trace = [] \<rparr>"

text \<open>
  The parameters: the completion endpoint on a world \<open>'w\<close> (it raises with a message, or
  answers), the JSON decoder (it raises with a message, or gives a value of \<open>'j\<close>), the
  test whether a decoded value is a dictionary, and the two default dates computed from
  the clock.
\<close>

record ('w, 'j) td_env =
  td_client :: "'w \<Rightarrow> message list \<Rightarrow> td_tool list option \<Rightarrow> (td_exception + completion) \<times> 'w"
  td_loads :: "string \<Rightarrow> td_exception + 'j"
  is_dict :: "'j \<Rightarrow> bool"
  departure_date :: string
  return_date :: string

text \<open>\<open>TravelDesigner.handle_rate_limit\<close> (the debug log is left out).\<close>

definition handle_rate_limit :: "python \<Rightarrow> 'w TravelDesigner \<Rightarrow> string \<Rightarrow> nat \<Rightarrow> bool \<times> 'w TravelDesigner" where
  "handle_rate_limit py td error attempt =
     (if contains ''quota'' (py_lower py error) \<or> contains ''rate'' (py_lower py error) \<or>
         contains ''credit'' (py_lower py error)
      then (let delay = retry_delay td * (2 ^ attempt)
            in (True, td\<lparr>td_trace := td_trace td @ [Sleep delay]\<rparr>))
      else (False, td))"

text \<open>
  \<open>TravelDesigner.call_openai\<close>: the loop \<open>for attempt in range(self.max_retries)\<close>
  runs over the list of attempts that are left.
\<close>

fun call_openai_loop ::
  "python \<Rightarrow> ('w, 'j) td_env \<Rightarrow> 'w TravelDesigner \<Rightarrow> nat list \<Rightarrow> (td_exception + completion) \<times> 'w TravelDesigner" where
  "call_openai_loop py env td [] = (Inl ''Max retries exceeded for API call'', td)"
| "call_openai_loop py env td (attempt # rest) =
     (case td_client env (td_world td) (td_messages td)
             (if ag_tools (td_current_agent td) \<noteq> [] then Some all_tools else None) of
        (Inr response, w) \<Rightarrow>
          (Inr response, td\<lparr>td_world := w, td_trace := td_trace td @ [ApiCall]\<rparr>)
      | (Inl e, w) \<Rightarrow>
          (let td1 = td\<lparr>td_world := w, td_trace := td_trace td @ [ApiCall]\<rparr> in
           if int attempt < int (max_retries td1) - 1
           then (case handle_rate_limit py td1 e attempt of
                   (True, td2) \<Rightarrow> call_openai_loop py env td2 rest
                 | (False, td2) \<Rightarrow> (Inl e, td2))
           else (Inl e, td1)))"

definition call_openai ::
  "python \<Rightarrow> ('w, 'j) td_env \<Rightarrow> 'w TravelDesigner \<Rightarrow> (td_exception + completion) \<times> 'w TravelDesigner" where
  "call_openai py env td = call_openai_loop py env td [0..<max_retries td]"

text \<open>
  \<open>TravelDesigner.process_tool_calls\<close>. The arguments are decoded before the \<open>try\<close>, so
  a decoding error leaves the function; inside the \<open>try\<close> the only failure is
  \<open>arguments.get\<close> on a value that is no dictionary, which becomes the error text.
\<close>

definition tool_output_for :: "('w, 'j) td_env \<Rightarrow> string \<Rightarrow> 'j \<Rightarrow> tool_output" where
  "tool_output_for env function_name arguments =
     (if function_name = ''get_flights''
      then (if is_dict env arguments then FlightsCatalogue else ToolErrorText)
      else if function_name = ''suggest_hotels''
      then (if is_dict env arguments then HotelsCatalogue else ToolErrorText)
      else if function_name = ''get_attractions''
      then (if is_dict env arguments then AttractionsCatalogue else ToolErrorText)
      else if function_name = ''get_restaurants''
      then (if is_dict env arguments then RestaurantsCatalogue else ToolErrorText)
      else ToolNotAvailable)"

fun process_tool_calls_from ::
  "('w, 'j) td_env \<Rightarrow> message list \<Rightarrow> tool_call list \<Rightarrow> td_exception + message list" where
  "process_tool_calls_from env tool_outputs [] = Inr tool_outputs"
| "process_tool_calls_from env tool_outputs (tc # tcs) =
     (let function_name = tc_name tc in
      case td_loads env (tc_arguments tc) of
        Inl e \<Rightarrow> Inl e
      | Inr arguments \<Rightarrow>
          process_tool_calls_from env
            (tool_outputs @
               [ToolMsg (tc_id tc) function_name
                  (JsonDumps (tool_output_for env function_name arguments))])
            tcs)"

definition process_tool_calls ::
  "('w, 'j) td_env \<Rightarrow> tool_call list \<Rightarrow> td_exception + message list" where
  "process_tool_calls env calls = process_tool_calls_from env [] calls"

text \<open>
  \<open>TravelDesigner.extract_destination\<close>. \<open>str.split\<close> never returns the empty list, so
  the empty case of \<open>first_of\<close> is never taken.
\<close>

definition first_of :: "string list \<Rightarrow> string" where
  "first_of xs = (case xs of [] \<Rightarrow> [] | x # _ \<Rightarrow> x)"

definition extract_destination :: "python \<Rightarrow> string option \<Rightarrow> string option" where
  "extract_destination py msg =
     (case msg of
        None \<Rightarrow> None
      | Some message \<Rightarrow>
          if message = [] then None
          else
            (let parts = (if contains ''Destination:'' message
                          then split ''Destination:'' message else [])
             in case parts of
                  _ # p1 # _ \<Rightarrow> Some (py_strip py (first_of (split ''\<newline>'' p1)))
                | _ \<Rightarrow>
                    (let lines = filter (\<lambda>l. l \<noteq> []) (map (py_strip py) (split ''\<newline>'' message))
                     in case lines of
                          l # _ \<Rightarrow>
                            if length (py_split_ws py l) \<le> 3 \<and> \<not> py_any_digit py l
                            then Some l else Some message
                        | [] \<Rightarrow> Some message)))"

text \<open>
  \<open>TravelDesigner.format_final_plan\<close>; \<open>part['response'] + "\n\n"\<close> raises a
  \<open>TypeError\<close> for a response that is \<open>None\<close>.
\<close>

fun format_parts :: "string \<Rightarrow> (string \<times> string option) list \<Rightarrow> td_exception + string" where
  "format_parts formatted [] = Inr formatted"
| "format_parts formatted ((agent, response) # parts) =
     (case response of
        None \<Rightarrow> Inl (''unsupported operand type(s) for +: '' @ [CHR 0x27] @ ''NoneType'' @ [CHR 0x27] @
                    '' and '' @ [CHR 0x27] @ ''str'' @ [CHR 0x27])
      | Some r \<Rightarrow>
          format_parts (formatted @ ''=== '' @ agent @ '' ===\<newline>'' @ r @ ''\<newline>\<newline>'') parts)"

definition format_final_plan :: "'w TravelDesigner \<Rightarrow> td_exception + string" where
  "format_final_plan td =
     (if full_plan td = [] then Inr ''No travel plan generated.''
      else format_parts (emoji_plane @ '' Your Personalized Travel Plan '' @ emoji_plane @ ''\<newline>\<newline>'')
             (full_plan td))"

text \<open>The \<open>except Exception\<close> handler of \<open>process_request\<close>: the text it returns.\<close>

definition error_reply :: "python \<Rightarrow> td_exception \<Rightarrow> string" where
  "error_reply py e =
     (if contains ''402'' e \<or> contains ''credit'' (py_lower py e)
      then emoji_cross @ '' Error: Insufficient credits on OpenRouter. '' @
           ''Please upgrade your account at https://openrouter.ai/settings/credits''
      else emoji_cross @ '' Error: '' @ e)"

definition could_not_determine :: string where
  "could_not_determine = emoji_cross @ '' Error: Could not determine destination''"

definition final_plan_or_error :: "python \<Rightarrow> 'w TravelDesigner \<Rightarrow> string" where
  "final_plan_or_error py td = (case format_final_plan td of Inl e \<Rightarrow> error_reply py e | Inr plan \<Rightarrow> plan)"

text \<open>
  \<open>TravelDesigner.process_request\<close>. The \<open>while True\<close> loop has no bound, so the model
  is a partial function: \<open>None\<close> is a run that never returns. A result is the returned
  text with the designer after the run.
\<close>

partial_function (option) process_request ::
  "python \<Rightarrow> ('w, 'j) td_env \<Rightarrow> 'w TravelDesigner \<Rightarrow> (string \<times> 'w TravelDesigner) option" where
  "process_request py env td =
     (case call_openai py env td of
        (Inl e, td1) \<Rightarrow> Some (error_reply py e, td1)
      | (Inr response, td1) \<Rightarrow>
          if tool_calls response \<noteq> [] then
            (let td2 = td1\<lparr>td_messages := td_messages td1 @ [AssistantToolCalls (tool_calls response)]\<rparr>
             in case process_tool_calls env (tool_calls response) of
                  Inl e \<Rightarrow> Some (error_reply py e, td2)
                | Inr tool_outputs \<Rightarrow>
                    process_request py env (td2\<lparr>td_messages := td_messages td2 @ tool_outputs\<rparr>))
          else
            (let assistant_reply = content response;
                 td2 = td1\<lparr>td_messages := td_messages td1 @ [AssistantMsg assistant_reply],
                           full_plan := full_plan td1 @
                                          [(ag_name (td_current_agent td1), assistant_reply)]\<rparr>
             in if ag_name (td_current_agent td2) = ''Destination Specialist'' then
                  (case extract_destination py assistant_reply of
                     None \<Rightarrow> Some (could_not_determine, td2)
                   | Some destination \<Rightarrow>
                       if destination = [] then Some (could_not_determine, td2)
                       else
                         (let td3 = td2\<lparr>user_preferences :=
                                          (user_preferences td2)(''destination'' \<mapsto> destination)\<rparr>;
                              handoff_msg =
                                ''Destination confirmed: '' @ destination @ ''\<newline>'' @
                                ''Origin: New York\<newline>'' @
                                ''Departure Date: '' @ departure_date env @ ''\<newline>'' @
                                ''Return Date: '' @ return_date env @ ''\<newline>'' @
                                ''Please book flights and hotels.''
                          in case handoff_to_agent (td_messages td3) (td_current_agent td3)
                                    booking_agent handoff_msg of
                               Inl e \<Rightarrow> Some (error_reply py e, td3)
                             | Inr (messages', next_agent) \<Rightarrow>
                                 process_request py env
                                   (td3\<lparr>td_messages := messages', td_current_agent := next_agent\<rparr>)))
                else if ag_name (td_current_agent td2) = ''Booking Specialist'' then
                  (if (case assistant_reply of
                         None \<Rightarrow> False
                       | Some r \<Rightarrow> r \<noteq> [] \<and> contains ''BOOKINGS COMPLETE'' (py_upper py r))
                   then
                     (case handoff_to_agent (td_messages td2) (td_current_agent td2) explore_agent
                             ''Bookings complete. Please suggest attractions and restaurants.'' of
                        Inl e \<Rightarrow> Some (error_reply py e, td2)
                      | Inr (messages', next_agent) \<Rightarrow>
                          process_request py env
                            (td2\<lparr>td_messages := messages', td_current_agent := next_agent\<rparr>))
                   else Some (final_plan_or_error py td2, td2))
                else Some (final_plan_or_error py td2, td2)))"

declare process_request.simps [code]

text \<open>\<open>TravelDesigner.start_conversation\<close>.\<close>

definition start_conversation ::
  "python \<Rightarrow> ('w, 'j) td_env \<Rightarrow> 'w TravelDesigner \<Rightarrow> string \<Rightarrow> (string \<times> 'w TravelDesigner) option" where
  "start_conversation py env td user_input =
     process_request py env
       (td\<lparr>td_messages := [SystemMsg (ag_instructions (td_current_agent td)), UserMsg user_input]\<rparr>)"

section \<open>Vocabulary of the statements\<close>

text \<open>
  \<open>before sep s\<close> and \<open>after sep s\<close> are the first and last component of Python's
  \<open>s.partition(sep)\<close>: the text in front of the first occurrence of \<open>sep\<close> and the text
  behind it (all of \<open>s\<close> and the empty text when \<open>sep\<close> does not occur).
\<close>

fun before :: "string \<Rightarrow> string \<Rightarrow> string" where
  "before sep [] = []"
| "before sep (c # cs) = (if startswith sep (c # cs) then [] else c # before sep cs)"

fun after :: "string \<Rightarrow> string \<Rightarrow> string" where
  "after sep [] = []"
| "after sep (c # cs) =
     (if startswith sep (c # cs) then drop (length sep) (c # cs) else after sep cs)"

text \<open>
  The marker families of the game master, in the order in which \<open>process_response\<close>
  tests for them.
\<close>

datatype family =
    HandoffMonster
  | HandoffItem
  | HandoffNarrator
  | UpdateLocation
  | DamagePlayer
  | HealPlayer
  | AddItem

definition marker :: "family \<Rightarrow> string" where
  "marker f = (case f of
     HandoffMonster \<Rightarrow> ''HANDOFF_MONSTER:''
   | HandoffItem \<Rightarrow> ''HANDOFF_ITEM:''
   | HandoffNarrator \<Rightarrow> ''HANDOFF_NARRATOR''
   | UpdateLocation \<Rightarrow> ''UPDATE_LOCATION:''
   | DamagePlayer \<Rightarrow> ''DAMAGE_PLAYER:''
   | HealPlayer \<Rightarrow> ''HEAL_PLAYER:''
   | AddItem \<Rightarrow> ''ADD_ITEM:'')"

definition families :: "family list" where
  "families = [HandoffMonster, HandoffItem, HandoffNarrator, UpdateLocation,
               DamagePlayer, HealPlayer, AddItem]"

text \<open>The first family, in that order, whose marker occurs in the text.\<close>

definition first_family :: "string \<Rightarrow> family option" where
  "first_family response = find (\<lambda>f. contains (marker f) response) families"

text \<open>
  For a family whose marker occurs in the text: the display text is the trimmed text in
  front of the first occurrence; the payload is the trimmed text between the first
  occurrence and the next occurrence of the same marker, or the end of the text.
\<close>

definition display_text :: "python \<Rightarrow> family \<Rightarrow> string \<Rightarrow> string" where
  "display_text py f response = py_strip py (before (marker f) response)"

definition payload_text :: "python \<Rightarrow> family \<Rightarrow> string \<Rightarrow> string" where
  "payload_text py f response = py_strip py (before (marker f) (after (marker f) response))"

text \<open>
  The state effect of one family on a payload, as the specification words it: a handoff
  selects the agent and sets its fact, a damage subtracts with a floor of zero and sets the
  terminal flag at zero, a heal adds, an item is appended, a location replaced.
\<close>

definition marker_effect :: "python \<Rightarrow> family \<Rightarrow> string \<Rightarrow> GameMaster \<Rightarrow> exn + GameMaster" where
  "marker_effect py f payload gm = (case f of
     HandoffMonster \<Rightarrow>
       Inr (gm\<lparr>state := (state gm)\<lparr>monster := Some payload, combat_active := True\<rparr>,
               current_agent := MonsterAgent, agent_name := ''Monster''\<rparr>)
   | HandoffItem \<Rightarrow>
       Inr (gm\<lparr>state := (state gm)\<lparr>item_discovered := Some payload\<rparr>,
               current_agent := ItemAgent, agent_name := ''Item''\<rparr>)
   | HandoffNarrator \<Rightarrow>
       Inr (gm\<lparr>state := (state gm)\<lparr>combat_active := False, monster := None,
                                      item_discovered := None\<rparr>,
               current_agent := NarratorAgent, agent_name := ''Narrator''\<rparr>)
   | UpdateLocation \<Rightarrow>
       Inr (gm\<lparr>state := (state gm)\<lparr>current_location := payload\<rparr>\<rparr>)
   | DamagePlayer \<Rightarrow>
       (case py_int py payload of
          None \<Rightarrow> Inl ValueError
        | Some d \<Rightarrow>
            Inr (gm\<lparr>state := (state gm)
                   \<lparr>player_health := max (player_health (state gm) - d) 0,
                    game_over := (game_over (state gm) \<or> player_health (state gm) - d \<le> 0)\<rparr>\<rparr>))
   | HealPlayer \<Rightarrow>
       (case py_int py payload of
          None \<Rightarrow> Inl ValueError
        | Some h \<Rightarrow>
            Inr (gm\<lparr>state := (state gm)\<lparr>player_health := player_health (state gm) + h\<rparr>\<rparr>))
   | AddItem \<Rightarrow>
       Inr (gm\<lparr>state := (state gm)\<lparr>player_inventory :=
                                      player_inventory (state gm) @ [payload]\<rparr>\<rparr>))"

text \<open>The test of \<open>handle_rate_limit\<close> on the text of an error.\<close>

definition classified_transient :: "python \<Rightarrow> string \<Rightarrow> bool" where
  "classified_transient py error =
     (contains ''quota'' (py_lower py error) \<or> contains ''rate'' (py_lower py error) \<or>
      contains ''credit'' (py_lower py error))"


definition api_calls :: "event list \<Rightarrow> nat" where
  "api_calls evs = length (filter (\<lambda>ev. ev = ApiCall) evs)"

text \<open>
  Stand-ins for the outside world in the examples: an endpoint that gives the same
  outcome on every request and counts the requests in the world, a decoder that accepts
  every text, handlers with a fixed result.
\<close>

definition always_td :: "td_exception + completion \<Rightarrow> (nat, unit) td_env" where
  "always_td outcome = \<lparr>
     td_client = (\<lambda>w messages tools. (outcome, Suc w)),
     td_loads = (\<lambda>payload. Inr ()),
     is_dict = (\<lambda>j. True),
     departure_date = ''2026-11-10'',
     return_date = ''2026-11-17'' \<rparr>"

definition always_gm :: "exn + completion \<Rightarrow> (nat, unit) gm_env" where
  "always_gm outcome = \<lparr>
     gm_client = (\<lambda>w messages tools. (outcome, Suc w)),
     gm_loads = (\<lambda>payload. Some ()),
     roll_dice = (\<lambda>w j. (Inr ''Dice rolls: [4] (Total: 4)'', w)),
     generate_event = (\<lambda>w j. (Inr ''The path forks in two directions'', w)) \<rparr>"

definition text_reply :: "string \<Rightarrow> completion" where
  "text_reply s = \<lparr>tool_calls = [], content = Some s\<rparr>"

text \<open>
  Where a payload-bearing family leaves its text payload in the game state: the monster,
  the discovered item, the location, or the last entry of the inventory.
\<close>

definition stored_payload :: "family \<Rightarrow> GameMaster \<Rightarrow> string option" where
  "stored_payload f gm = (case f of
     HandoffMonster \<Rightarrow> monster (state gm)
   | HandoffItem \<Rightarrow> item_discovered (state gm)
   | UpdateLocation \<Rightarrow> Some (current_location (state gm))
   | AddItem \<Rightarrow> (if player_inventory (state gm) = [] then None
                 else Some (last (player_inventory (state gm))))
   | _ \<Rightarrow> None)"

text \<open>
  A stand-in that answers every request with the text of the last user message, so that
  what an agent is asked shows in what it answers; the world is the list of the tools
  offered with each request so far.
\<close>

definition echo_gm :: "(gm_tool list option list, unit) gm_env" where
  "echo_gm = \<lparr>
     gm_client = (\<lambda>w messages tools.
        (Inr (text_reply (case rev messages of UserMsg t # _ \<Rightarrow> t | _ \<Rightarrow> [])), w @ [tools])),
     gm_loads = (\<lambda>payload. Some ()),
     roll_dice = (\<lambda>w j. (Inr ''Dice rolls: [4] (Total: 4)'', w)),
     generate_event = (\<lambda>w j. (Inr ''The path forks in two directions'', w)) \<rparr>"

text \<open>
  What \<open>start_game\<close> prints first, and the game master after the turn \<open>go north\<close> at
  the start of a game.
\<close>

definition banner :: "string list" where
  "banner = [''Welcome to the Fantasy Adventure Game!'',
             ''Type '' @ [CHR 0x27] @ ''quit'' @ [CHR 0x27] @ '' at any time to exit the game\<newline>'']"

definition north_of_start :: GameMaster where
  "north_of_start = GameMaster_init\<lparr>state := GameState_init\<lparr>last_action := ''go north''\<rparr>\<rparr>"

text \<open>Examples: a mentor waiting for a choice among two careers, and a choosing input.\<close>

definition awaiting_data :: CareerMentor where
  "awaiting_data = CareerMentor_init\<lparr>context_recommendations := [''Data Scientist'', ''Data Analyst''],
                                       awaiting_selection := True\<rparr>"

definition choose_text :: string where
  "choose_text = ''I'' @ [CHR 0x27] @ ''ll go with data scientist please''"

text \<open>
  The tool messages \<open>results\<close> answer the requests \<open>calls\<close>: one tool message for each
  request, in the order of the requests, with the identifier and the name of its request.
\<close>

fun answers_one :: "tool_call \<Rightarrow> message \<Rightarrow> bool" where
  "answers_one tc (ToolMsg i n c) = (i = tc_id tc \<and> n = tc_name tc)"
| "answers_one tc _ = False"

definition answers :: "tool_call list \<Rightarrow> message list \<Rightarrow> bool" where
  "answers calls results = list_all2 answers_one calls results"

text \<open>
  A transcript is answered when every assistant message with requests is followed at once
  by the tool messages that answer them, and no tool message stands anywhere else. It is
  answered up to its last request when, in addition, its last message may be an
  assistant message with requests that nothing follows.
\<close>

function answered :: "message list \<Rightarrow> bool" where
  "answered [] = True"
| "answered (AssistantToolCalls calls # rest) =
     (answers calls (take (length calls) rest) \<and> answered (drop (length calls) rest))"
| "answered (ToolMsg i n c # rest) = False"
| "answered (SystemMsg t # rest) = answered rest"
| "answered (UserMsg t # rest) = answered rest"
| "answered (AssistantMsg t # rest) = answered rest"
  by pat_completeness auto
termination
  by (relation "measure length") auto

definition answered_but_last :: "message list \<Rightarrow> bool" where
  "answered_but_last messages =
     (answered messages \<or>
      (case rev messages of
         AssistantToolCalls calls # front \<Rightarrow> answered (rev front)
       | _ \<Rightarrow> False))"

text \<open>
  The transcripts of the travel designer start with the system message, which a handoff
  overwrites.
\<close>

definition started :: "message list \<Rightarrow> bool" where
  "started messages = (case messages of SystemMsg t # rest \<Rightarrow> answered rest | _ \<Rightarrow> False)"

definition started_but_last :: "message list \<Rightarrow> bool" where
  "started_but_last messages =
     (case messages of SystemMsg t # rest \<Rightarrow> answered_but_last rest | _ \<Rightarrow> False)"

text \<open>
  Stand-ins with a script: the endpoint gives the outcomes of the list one after the
  other, and a plain text once the list is used up. The world is the list of the requests
  made so far, each as the number of messages sent and the tools offered. The decoder of
  \<open>picky_td\<close> accepts the text \<open>{}\<close> only.
\<close>

definition scripted :: "'a list \<Rightarrow> 'a \<Rightarrow> nat \<Rightarrow> 'a" where
  "scripted script final w = (case drop w script of x # _ \<Rightarrow> x | [] \<Rightarrow> final)"

definition scripted_gm ::
  "(exn + completion) list \<Rightarrow> ((nat \<times> gm_tool list option) list, unit) gm_env" where
  "scripted_gm script = \<lparr>
     gm_client = (\<lambda>w messages tools.
        (scripted script (Inr (text_reply ''The end.'')) (length w), w @ [(length messages, tools)])),
     gm_loads = (\<lambda>payload. Some ()),
     roll_dice = (\<lambda>w j. (Inr ''Dice rolls: [4] (Total: 4)'', w)),
     generate_event = (\<lambda>w j. (Inr ''The path forks in two directions'', w)) \<rparr>"

definition picky_td ::
  "(td_exception + completion) list \<Rightarrow> ((nat \<times> td_tool list option) list, unit) td_env" where
  "picky_td script = \<lparr>
     td_client = (\<lambda>w messages tools.
        (scripted script (Inr (text_reply ''The end.'')) (length w), w @ [(length messages, tools)])),
     td_loads = (\<lambda>payload. if payload = ''{}'' then Inr () else Inl ''Expecting value''),
     is_dict = (\<lambda>j. True),
     departure_date = ''2026-11-10'',
     return_date = ''2026-11-17'' \<rparr>"

text \<open>The reply, the transcript and the world that a run of the travel designer leaves.\<close>

definition left_behind ::
  "(string \<times> 'w TravelDesigner) option \<Rightarrow> (string \<times> message list \<times> 'w) option" where
  "left_behind result = map_option (\<lambda>(reply, td). (reply, td_messages td, td_world td)) result"

definition requests :: "tool_call list \<Rightarrow> completion" where
  "requests calls = \<lparr>tool_calls = calls, content = None\<rparr>"

text \<open>
  Examples: two requests with distinct identifiers; a script for the game master, which
  requests them and then narrates; a script for the travel designer, which names a
  destination, requests them, completes the bookings and suggests a sight; two requests
  that share one identifier; a request whose arguments are no JSON text; an endpoint whose
  reply carries the marker \<open>Destination:\<close> and nothing behind it; and a designer at the
  start of a conversation.
\<close>

definition two_calls :: "tool_call list" where
  "two_calls = [\<lparr>tc_id = ''call_1'', tc_name = ''roll_dice'', tc_arguments = ''{}''\<rparr>,
                \<lparr>tc_id = ''call_2'', tc_name = ''get_flights'', tc_arguments = ''{}''\<rparr>]"

definition narration :: "(exn + completion) list" where
  "narration = [Inr (requests two_calls), Inr (text_reply ''You rolled a four.'')]"

definition journey :: "(td_exception + completion) list" where
  "journey = [Inr (text_reply ''Destination: Rome''), Inr (requests two_calls),
              Inr (text_reply ''Bookings complete''), Inr (text_reply ''See the Forum.'')]"

text \<open>
  What these two runs leave: the transcript of the game master, and the plan, the
  transcript and the requests of the travel designer for the input \<open>somewhere warm\<close> (the
  Destination Specialist is offered no tools, the other two all four).
\<close>

definition narrated :: "message list" where
  "narrated =
     [SystemMsg ''Narrate.'', UserMsg ''roll'', AssistantToolCalls two_calls,
      ToolMsg ''call_1'' ''roll_dice'' (Text ''Dice rolls: [4] (Total: 4)''),
      ToolMsg ''call_2'' ''get_flights'' (Text ''Error: Unknown function get_flights'')]"

definition journey_plan :: string where
  "journey_plan =
     emoji_plane @ '' Your Personalized Travel Plan '' @ emoji_plane @ ''\<newline>\<newline>'' @
     ''=== Destination Specialist ===\<newline>Destination: Rome\<newline>\<newline>'' @
     ''=== Booking Specialist ===\<newline>Bookings complete\<newline>\<newline>'' @
     ''=== Exploration Specialist ===\<newline>See the Forum.\<newline>\<newline>''"

definition journey_transcript :: "message list" where
  "journey_transcript =
     [SystemMsg (ag_instructions explore_agent), UserMsg ''somewhere warm'',
      AssistantMsg (Some ''Destination: Rome''),
      UserMsg (''Destination confirmed: Rome\<newline>Origin: New York\<newline>'' @
               ''Departure Date: 2026-11-10\<newline>Return Date: 2026-11-17\<newline>'' @
               ''Please book flights and hotels.''),
      AssistantToolCalls two_calls,
      ToolMsg ''call_1'' ''roll_dice'' (JsonDumps ToolNotAvailable),
      ToolMsg ''call_2'' ''get_flights'' (JsonDumps FlightsCatalogue),
      AssistantMsg (Some ''Bookings complete''),
      UserMsg ''Bookings complete. Please suggest attractions and restaurants.'',
      AssistantMsg (Some ''See the Forum.'')]"

definition journey_requests :: "(nat \<times> td_tool list option) list" where
  "journey_requests = [(2, None), (4, Some all_tools), (7, Some all_tools), (9, Some all_tools)]"

definition twin_calls :: "tool_call list" where
  "twin_calls = [\<lparr>tc_id = ''call_1'', tc_name = ''roll_dice'', tc_arguments = ''{}''\<rparr>,
                 \<lparr>tc_id = ''call_1'', tc_name = ''generate_event'', tc_arguments = ''{}''\<rparr>]"

definition broken_call :: "tool_call list" where
  "broken_call = [\<lparr>tc_id = ''call_9'', tc_name = ''get_flights'', tc_arguments = ''{not json''\<rparr>]"

definition blank_env :: "(nat, unit) td_env" where
  "blank_env = always_td (Inr (text_reply ''Destination:''))"

definition fresh_designer :: "'w \<Rightarrow> 'w TravelDesigner" where
  "fresh_designer w = (TravelDesigner_init w)\<lparr>td_messages :=
      [SystemMsg (ag_instructions destination_agent), UserMsg ''somewhere warm'']\<rparr>"

section \<open>Properties of the string operations\<close>

lemma startswith_iff: "startswith p s \<longleftrightarrow> (\<exists>b. s = p @ b)"
  unfolding startswith_def
  by (metis append_eq_conv_conj append_take_drop_id)

text \<open>\<open>contains\<close> is the substring test.\<close>

lemma contains_iff: "contains p s \<longleftrightarrow> (\<exists>a b. s = a @ p @ b)"
proof (induction s)
  case Nil
  then show ?case by auto
next
  case (Cons c cs)
  show ?case
  proof
    assume "contains p (c # cs)"
    then consider "startswith p (c # cs)" | "contains p cs" by auto
    then show "\<exists>a b. c # cs = a @ p @ b"
    proof cases
      case 1
      then obtain b where "c # cs = p @ b" using startswith_iff by blast
      then have "c # cs = [] @ p @ b" by simp
      then show ?thesis by blast
    next
      case 2
      then obtain a b where "cs = a @ p @ b" using Cons.IH by blast
      then have "c # cs = (c # a) @ p @ b" by simp
      then show ?thesis by blast
    qed
  next
    assume "\<exists>a b. c # cs = a @ p @ b"
    then obtain a b where ab: "c # cs = a @ p @ b" by blast
    show "contains p (c # cs)"
    proof (cases a)
      case Nil
      then have "startswith p (c # cs)" using ab startswith_iff by auto
      then show ?thesis by simp
    next
      case (Cons x xs)
      then have "cs = xs @ p @ b" using ab by simp
      then have "contains p cs" using Cons.IH by blast
      then show ?thesis by simp
    qed
  qed
qed

text \<open>
  The first two parts of a split: the text in front of the first occurrence, then the
  text up to the next one.
\<close>

lemma split_before_after:
  "sep \<noteq> [] \<Longrightarrow>
   split sep s = before sep s # (if contains sep s then split sep (after sep s) else [])"
proof (induction sep s rule: split.induct)
  case (1 sep)
  then show ?case by simp
next
  case (2 sep c cs)
  show ?case
  proof (cases "startswith sep (c # cs)")
    case True
    with 2 show ?thesis by simp
  next
    case False
    with 2 show ?thesis by simp
  qed
qed

lemma split_parts:
  "sep \<noteq> [] \<Longrightarrow> contains sep s \<Longrightarrow>
   \<exists>ps. split sep s = before sep s # before sep (after sep s) # ps"
  by (metis split_before_after)

lemma first_of_split: "sep \<noteq> [] \<Longrightarrow> first_of (split sep s) = before sep s"
  by (simp add: split_before_after first_of_def)

lemma before_after_decompose: "contains sep s \<Longrightarrow> s = before sep s @ sep @ after sep s"
proof (induction s)
  case Nil
  then show ?case by simp
next
  case (Cons c cs)
  show ?case
  proof (cases "startswith sep (c # cs)")
    case True
    then have "c # cs = sep @ drop (length sep) (c # cs)"
      unfolding startswith_def by (metis append_take_drop_id)
    with True show ?thesis by simp
  next
    case False
    with Cons show ?thesis by simp
  qed
qed

lemma before_absent: "\<not> contains sep s \<Longrightarrow> before sep s = s"
  by (induction s) auto

text \<open>No occurrence of the separator starts in front of the end of \<open>before sep s\<close>.\<close>

lemma before_first:
  "k \<le> length (before sep s) \<Longrightarrow> k < length s \<Longrightarrow> startswith sep (drop k s) \<Longrightarrow>
   k = length (before sep s)"
proof (induction s arbitrary: k)
  case Nil
  then show ?case by simp
next
  case (Cons c cs)
  show ?case
  proof (cases "startswith sep (c # cs)")
    case True
    with Cons.prems show ?thesis by simp
  next
    case False
    show ?thesis
    proof (cases k)
      case 0
      with Cons.prems False show ?thesis by simp
    next
      case (Suc j)
      with Cons.prems False have "j = length (before sep cs)"
        by (intro Cons.IH) auto
      with Suc False show ?thesis by simp
    qed
  qed
qed

section \<open>The marker parser of the game master\<close>

lemma first_family_cases:
  "first_family r =
     (if contains ''HANDOFF_MONSTER:'' r then Some HandoffMonster
      else if contains ''HANDOFF_ITEM:'' r then Some HandoffItem
      else if contains ''HANDOFF_NARRATOR'' r then Some HandoffNarrator
      else if contains ''UPDATE_LOCATION:'' r then Some UpdateLocation
      else if contains ''DAMAGE_PLAYER:'' r then Some DamagePlayer
      else if contains ''HEAL_PLAYER:'' r then Some HealPlayer
      else if contains ''ADD_ITEM:'' r then Some AddItem
      else None)"
  by (simp add: first_family_def families_def marker_def)

lemma first_family_contains: "first_family r = Some f \<Longrightarrow> contains (marker f) r"
  unfolding first_family_def by (auto simp: find_Some_iff)

lemma marker_nonempty: "marker f \<noteq> []"
  by (cases f) (simp_all add: marker_def)

lemma split_marker:
  assumes "first_family r = Some f"
  shows "\<exists>ps. split (marker f) r =
           before (marker f) r # before (marker f) (after (marker f) r) # ps"
  using split_parts [OF marker_nonempty first_family_contains [OF assms]] .

text \<open>
  With a marker in the text, \<open>process_response\<close> does what the first family present
  asks for, on the payload behind the first occurrence of its marker.
\<close>

lemma process_response_family:
  assumes "first_family r = Some f"
  shows "process_response py gm r =
           (case marker_effect py f (payload_text py f r) gm of
              Inl e \<Rightarrow> Inl e
            | Inr gm' \<Rightarrow> Inr (gm', display_text py f r))"
proof -
  obtain ps where ps: "split (marker f) r =
      before (marker f) r # before (marker f) (after (marker f) r) # ps"
    using split_marker [OF assms] by blast
  note defs = process_response_def marker_effect_def payload_text_def display_text_def marker_def
  show ?thesis
  proof (cases f)
    case HandoffMonster
    with assms have "contains ''HANDOFF_MONSTER:'' r"
      by (simp add: first_family_cases split: if_splits)
    with ps HandoffMonster show ?thesis by (simp add: defs)
  next
    case HandoffItem
    with assms have "\<not> contains ''HANDOFF_MONSTER:'' r \<and> contains ''HANDOFF_ITEM:'' r"
      by (simp add: first_family_cases split: if_splits)
    with ps HandoffItem show ?thesis by (simp add: defs)
  next
    case HandoffNarrator
    with assms have "\<not> contains ''HANDOFF_MONSTER:'' r \<and> \<not> contains ''HANDOFF_ITEM:'' r \<and>
        contains ''HANDOFF_NARRATOR'' r"
      by (simp add: first_family_cases split: if_splits)
    with ps HandoffNarrator show ?thesis by (simp add: defs Let_def)
  next
    case UpdateLocation
    with assms have "\<not> contains ''HANDOFF_MONSTER:'' r \<and> \<not> contains ''HANDOFF_ITEM:'' r \<and>
        \<not> contains ''HANDOFF_NARRATOR'' r \<and> contains ''UPDATE_LOCATION:'' r"
      by (simp add: first_family_cases split: if_splits)
    with ps UpdateLocation show ?thesis by (simp add: defs)
  next
    case DamagePlayer
    with assms have "\<not> contains ''HANDOFF_MONSTER:'' r \<and> \<not> contains ''HANDOFF_ITEM:'' r \<and>
        \<not> contains ''HANDOFF_NARRATOR'' r \<and> \<not> contains ''UPDATE_LOCATION:'' r \<and>
        contains ''DAMAGE_PLAYER:'' r"
      by (simp add: first_family_cases split: if_splits)
    with ps DamagePlayer show ?thesis
      by (simp add: defs Let_def max_def split: option.splits)
  next
    case HealPlayer
    with assms have "\<not> contains ''HANDOFF_MONSTER:'' r \<and> \<not> contains ''HANDOFF_ITEM:'' r \<and>
        \<not> contains ''HANDOFF_NARRATOR'' r \<and> \<not> contains ''UPDATE_LOCATION:'' r \<and>
        \<not> contains ''DAMAGE_PLAYER:'' r \<and> contains ''HEAL_PLAYER:'' r"
      by (simp add: first_family_cases split: if_splits)
    with ps HealPlayer show ?thesis by (simp add: defs split: option.splits)
  next
    case AddItem
    with assms have "\<not> contains ''HANDOFF_MONSTER:'' r \<and> \<not> contains ''HANDOFF_ITEM:'' r \<and>
        \<not> contains ''HANDOFF_NARRATOR'' r \<and> \<not> contains ''UPDATE_LOCATION:'' r \<and>
        \<not> contains ''DAMAGE_PLAYER:'' r \<and> \<not> contains ''HEAL_PLAYER:'' r \<and>
        contains ''ADD_ITEM:'' r"
      by (simp add: first_family_cases split: if_splits)
    with ps AddItem show ?thesis by (simp add: defs)
  qed
qed

lemma process_response_no_marker:
  assumes "first_family r = None"
  shows "process_response py gm r = Inr (gm, r)"
  using assms by (simp add: first_family_cases process_response_def split: if_splits)

lemma extract_destination_marker:
  assumes "contains ''Destination:'' msg"
  shows "extract_destination py (Some msg) =
           Some (py_strip py (before ''\<newline>'' (before ''Destination:'' (after ''Destination:'' msg))))"
proof -
  from assms have ne: "msg \<noteq> []" by auto
  obtain ps where "split ''Destination:'' msg =
      before ''Destination:'' msg # before ''Destination:'' (after ''Destination:'' msg) # ps"
    using split_parts [OF _ assms] by auto
  with assms ne show ?thesis
    by (simp add: extract_destination_def first_of_split)
qed

lemma process_response_last_action:
  assumes "process_response py gm r = Inr (gm', shown)"
  shows "last_action (state gm') = last_action (state gm)"
proof (cases "first_family r")
  case None
  with assms show ?thesis by (simp add: process_response_no_marker)
next
  case (Some f)
  from assms show ?thesis
    unfolding process_response_family [OF Some]
    by (cases f) (auto simp: marker_effect_def split: option.splits)
qed



text \<open>
  C9. When the marker applied is \<open>DAMAGE_PLAYER\<close> or \<open>HEAL_PLAYER\<close> and the payload is
  not the text of an integer, \<open>process_response\<close> raises \<open>ValueError\<close>: the conversion is
  not guarded, and no display text is returned.
\<close>

theorem malformed_amount_raises:
  assumes "first_family r = Some f"
    and "f = DamagePlayer \<or> f = HealPlayer"
    and "py_int py (payload_text py f r) = None"
  shows "process_response py gm r = Inl ValueError"
  using assms by (auto simp: process_response_family marker_effect_def)

theorem malformed_amount_raises_witness:
  "first_family ''The troll swings. DAMAGE_PLAYER: lots'' = Some DamagePlayer \<and>
   py_int ascii_python
     (payload_text ascii_python DamagePlayer ''The troll swings. DAMAGE_PLAYER: lots'') = None \<and>
   process_response ascii_python GameMaster_init ''The troll swings. DAMAGE_PLAYER: lots'' =
     Inl ValueError"
proof -
  have f: "first_family ''The troll swings. DAMAGE_PLAYER: lots'' = Some DamagePlayer"
    by code_simp
  have p: "py_int ascii_python
      (payload_text ascii_python DamagePlayer ''The troll swings. DAMAGE_PLAYER: lots'') = None"
    by code_simp
  from malformed_amount_raises [OF f _ p, where gm = GameMaster_init] f p show ?thesis by simp
qed

text \<open>
  C2 (as amended). For every response text exactly one marker family is honoured: the
  first one, in the order \<open>HANDOFF_MONSTER\<close>, \<open>HANDOFF_ITEM\<close>, \<open>HANDOFF_NARRATOR\<close>,
  \<open>UPDATE_LOCATION\<close>, \<open>DAMAGE_PLAYER\<close>, \<open>HEAL_PLAYER\<close>, \<open>ADD_ITEM\<close>, whose marker
  occurs in the text. Its effect is applied to the payload behind its first occurrence
  and the display text is the trimmed text in front of that occurrence; the markers of
  all other families in the text have no effect. A text without a marker is returned
  unchanged with the state untouched.
\<close>

theorem first_family_only:
  "process_response py gm r =
     (case first_family r of
        None \<Rightarrow> Inr (gm, r)
      | Some f \<Rightarrow>
          (case marker_effect py f (payload_text py f r) gm of
             Inl e \<Rightarrow> Inl e
           | Inr gm' \<Rightarrow> Inr (gm', display_text py f r)))"
proof (cases "first_family r")
  case None
  then show ?thesis by (simp add: process_response_no_marker)
next
  case (Some f)
  then show ?thesis by (simp add: process_response_family)
qed

text \<open>
  An item marker in front of a heal marker: only the heal is applied, and the item marker
  stays in the display text.
\<close>

theorem first_family_only_witness:
  "first_family ''A chest. ADD_ITEM: Rope HEAL_PLAYER: 5'' = Some HealPlayer \<and>
   process_response ascii_python GameMaster_init ''A chest. ADD_ITEM: Rope HEAL_PLAYER: 5'' =
     Inr (\<lparr>state = \<lparr>player_health = 105, player_inventory = [],
                     current_location = ''Forest Entrance'', game_over = False,
                     combat_active = False, monster = None, item_discovered = None,
                     last_action = []\<rparr>,
           current_agent = NarratorAgent, agent_name = ''Narrator''\<rparr>,
          ''A chest. ADD_ITEM: Rope'')"
proof -
  have f: "first_family ''A chest. ADD_ITEM: Rope HEAL_PLAYER: 5'' = Some HealPlayer"
    by code_simp
  have e: "marker_effect ascii_python HealPlayer
             (payload_text ascii_python HealPlayer ''A chest. ADD_ITEM: Rope HEAL_PLAYER: 5'')
             GameMaster_init =
           Inr \<lparr>state = \<lparr>player_health = 105, player_inventory = [],
                     current_location = ''Forest Entrance'', game_over = False,
                     combat_active = False, monster = None, item_discovered = None,
                     last_action = []\<rparr>,
           current_agent = NarratorAgent, agent_name = ''Narrator''\<rparr>"
    by code_simp
  have d: "display_text ascii_python HealPlayer ''A chest. ADD_ITEM: Rope HEAL_PLAYER: 5'' =
           ''A chest. ADD_ITEM: Rope''"
    by code_simp
  from first_family_only [where py = ascii_python and gm = GameMaster_init
      and r = "''A chest. ADD_ITEM: Rope HEAL_PLAYER: 5''"] f e d
  show ?thesis by simp
qed

text \<open>
  The claim as written fails: with a damage marker and a handoff marker in one text, only
  the handoff is honoured; the health stays 100 and the damage marker stays in the
  display text.
\<close>

theorem both_markers_counterexample:
  "contains ''HANDOFF_MONSTER:'' ''You are hit. DAMAGE_PLAYER: 10 HANDOFF_MONSTER: Orc'' \<and>
   contains ''DAMAGE_PLAYER:'' ''You are hit. DAMAGE_PLAYER: 10 HANDOFF_MONSTER: Orc'' \<and>
   process_response ascii_python GameMaster_init
       ''You are hit. DAMAGE_PLAYER: 10 HANDOFF_MONSTER: Orc'' =
     Inr (\<lparr>state = \<lparr>player_health = 100, player_inventory = [],
                     current_location = ''Forest Entrance'', game_over = False,
                     combat_active = True, monster = Some ''Orc'', item_discovered = None,
                     last_action = []\<rparr>,
           current_agent = MonsterAgent, agent_name = ''Monster''\<rparr>,
          ''You are hit. DAMAGE_PLAYER: 10'')"
  by code_simp

section \<open>The career mentor: choosing a career\<close>

lemma matching_career_Some:
  "matching_career py recs u = Some c \<Longrightarrow>
   c \<in> set recs \<and> contains (py_lower py c) u \<and>
   (\<forall>c' \<in> set (takeWhile (\<lambda>x. x \<noteq> c) recs). \<not> contains (py_lower py c') u)"
proof (induction recs)
  case Nil
  then show ?case by (simp add: matching_career_def)
next
  case (Cons a recs)
  then show ?case by (auto simp: matching_career_def split: if_splits)
qed

lemma matching_career_None:
  "matching_career py recs u = None \<longleftrightarrow> (\<forall>c \<in> set recs. \<not> contains (py_lower py c) u)"
  by (auto simp: matching_career_def find_None_iff)

lemma matching_career_exists:
  "\<exists>c \<in> set recs. contains (py_lower py c) u \<Longrightarrow> \<exists>c. matching_career py recs u = Some c"
  using matching_career_None [of py recs u] by (cases "matching_career py recs u") auto

lemma run_selects:
  assumes "cm_current_agent m = Career" "awaiting_selection m"
    and "matching_career py (context_recommendations m) (py_lower py inp) = Some c"
  shows "run py m inp =
     Inr (m\<lparr>context_career := Some c, awaiting_selection := False, cm_current_agent := Skill\<rparr>,
          get_career_roadmap py c @ ''\<newline>\<newline>Type '' @ [CHR 0x27] @ ''jobs'' @ [CHR 0x27] @
          '' to see career opportunities'')"
  using assms by (simp add: run_def handle_agent_handoff_def skill_agent_def)

lemma run_reprompts:
  assumes "cm_current_agent m = Career" "awaiting_selection m"
    and "matching_career py (context_recommendations m) (py_lower py inp) = None"
  shows "run py m inp =
     Inr (m, emoji_warning @ '' Please select a career from the recommendations:\<newline>'' @
             bullet_list (context_recommendations m) @
             ''\<newline>\<newline>Or describe your interests for new suggestions.'')"
  using assms by (simp add: run_def handle_agent_handoff_def career_agent_def)

text \<open>
  C7. While the mentor is in the career state and awaits a selection: an input that
  contains one of the recommended careers, compared in lower case, records a recommended
  career that the input contains (the first such one in the order of the list), leaves the
  awaiting mode and moves to the skill state, whose agent answers with the roadmap of
  that career; an input that contains none of them is answered with the same list again,
  and the mentor is unchanged.
\<close>

theorem career_selection:
  assumes "cm_current_agent m = Career" and "awaiting_selection m"
  shows "((\<exists>c \<in> set (context_recommendations m). contains (py_lower py c) (py_lower py inp)) \<longrightarrow>
           (\<exists>c. c \<in> set (context_recommendations m) \<and>
              contains (py_lower py c) (py_lower py inp) \<and>
              (\<forall>c' \<in> set (takeWhile (\<lambda>x. x \<noteq> c) (context_recommendations m)).
                  \<not> contains (py_lower py c') (py_lower py inp)) \<and>
              run py m inp =
                Inr (m\<lparr>context_career := Some c, awaiting_selection := False,
                       cm_current_agent := Skill\<rparr>,
                     get_career_roadmap py c @ ''\<newline>\<newline>Type '' @ [CHR 0x27] @ ''jobs'' @
                     [CHR 0x27] @ '' to see career opportunities''))) \<and>
         ((\<forall>c \<in> set (context_recommendations m). \<not> contains (py_lower py c) (py_lower py inp)) \<longrightarrow>
           run py m inp =
             Inr (m, emoji_warning @ '' Please select a career from the recommendations:\<newline>'' @
                     bullet_list (context_recommendations m) @
                     ''\<newline>\<newline>Or describe your interests for new suggestions.''))"
proof (intro conjI impI)
  assume "\<exists>c \<in> set (context_recommendations m). contains (py_lower py c) (py_lower py inp)"
  then obtain c where c: "matching_career py (context_recommendations m) (py_lower py inp) = Some c"
    using matching_career_exists by blast
  from matching_career_Some [OF c] run_selects [OF assms c]
  show "\<exists>c. c \<in> set (context_recommendations m) \<and>
              contains (py_lower py c) (py_lower py inp) \<and>
              (\<forall>c' \<in> set (takeWhile (\<lambda>x. x \<noteq> c) (context_recommendations m)).
                  \<not> contains (py_lower py c') (py_lower py inp)) \<and>
              run py m inp =
                Inr (m\<lparr>context_career := Some c, awaiting_selection := False,
                       cm_current_agent := Skill\<rparr>,
                     get_career_roadmap py c @ ''\<newline>\<newline>Type '' @ [CHR 0x27] @ ''jobs'' @
                     [CHR 0x27] @ '' to see career opportunities'')"
    by blast
next
  assume "\<forall>c \<in> set (context_recommendations m). \<not> contains (py_lower py c) (py_lower py inp)"
  then have "matching_career py (context_recommendations m) (py_lower py inp) = None"
    by (simp add: matching_career_None)
  from run_reprompts [OF assms this]
  show "run py m inp =
             Inr (m, emoji_warning @ '' Please select a career from the recommendations:\<newline>'' @
                     bullet_list (context_recommendations m) @
                     ''\<newline>\<newline>Or describe your interests for new suggestions.'')" .
qed

text \<open>
  The example of the specification. The interests \<open>I like data\<close> bring the mentor to
  the list \<open>Data Scientist\<close>, \<open>Data Analyst\<close>; then the input
  \<open>I'll go with data scientist please\<close> selects \<open>Data Scientist\<close> and is answered with
  its roadmap, while \<open>tell me more\<close> is answered with the two careers again and changes
  nothing.
\<close>

theorem career_selection_witness:
  "run ascii_python CareerMentor_init ''I like data'' =
     Inr (awaiting_data,
          emoji_magnifier @ '' Based on your interests, I recommend:\<newline>'' @
          ''- Data Scientist\<newline>- Data Analyst'' @
          ''\<newline>\<newline>Please type the name of a career to explore further'') \<and>
   cm_current_agent awaiting_data = Career \<and> awaiting_selection awaiting_data \<and>
   context_recommendations awaiting_data = [''Data Scientist'', ''Data Analyst''] \<and>
   contains (py_lower ascii_python ''Data Scientist'') (py_lower ascii_python choose_text) \<and>
   \<not> contains (py_lower ascii_python ''Data Scientist'') (py_lower ascii_python ''tell me more'') \<and>
   \<not> contains (py_lower ascii_python ''Data Analyst'') (py_lower ascii_python ''tell me more'') \<and>
   run ascii_python awaiting_data choose_text =
     Inr (\<lparr>cm_current_agent = Skill, context_career = Some ''Data Scientist'',
            context_recommendations = [''Data Scientist'', ''Data Analyst''],
            awaiting_selection = False\<rparr>,
          emoji_books @ '' Data Scientist Skill Roadmap:\<newline>'' @
          ''1. Python, Pandas, NumPy\<newline>'' @
          ''2. Data Visualization (Matplotlib, Seaborn)\<newline>'' @
          ''3. Machine Learning (scikit-learn, TensorFlow)\<newline>'' @
          ''4. SQL for data querying\<newline>'' @
          ''5. Statistical Analysis\<newline>'' @
          ''6. Model Deployment'' @
          ''\<newline>\<newline>Type '' @ [CHR 0x27] @ ''jobs'' @ [CHR 0x27] @ '' to see career opportunities'') \<and>
   run ascii_python awaiting_data ''tell me more'' =
     Inr (\<lparr>cm_current_agent = Career, context_career = None,
            context_recommendations = [''Data Scientist'', ''Data Analyst''],
            awaiting_selection = True\<rparr>,
          emoji_warning @ '' Please select a career from the recommendations:\<newline>'' @
          ''- Data Scientist\<newline>- Data Analyst'' @
          ''\<newline>\<newline>Or describe your interests for new suggestions.'')"
proof -
  let ?lo = "py_lower ascii_python"
  have first: "run ascii_python CareerMentor_init ''I like data'' =
     Inr (awaiting_data,
          emoji_magnifier @ '' Based on your interests, I recommend:\<newline>'' @
          ''- Data Scientist\<newline>- Data Analyst'' @
          ''\<newline>\<newline>Please type the name of a career to explore further'')"
    by code_simp
  have a: "cm_current_agent awaiting_data = Career" "awaiting_selection awaiting_data"
    by (simp_all add: awaiting_data_def CareerMentor_init_def)
  have recs: "context_recommendations awaiting_data = [''Data Scientist'', ''Data Analyst'']"
    by (simp add: awaiting_data_def)
  have yes: "contains (?lo ''Data Scientist'') (?lo choose_text)" by code_simp
  have no1: "\<not> contains (?lo ''Data Analyst'') (?lo choose_text)" by code_simp
  have no2: "\<not> contains (?lo ''Data Scientist'') (?lo ''tell me more'')" by code_simp
  have no3: "\<not> contains (?lo ''Data Analyst'') (?lo ''tell me more'')" by code_simp
  have ex: "\<exists>c \<in> set (context_recommendations awaiting_data). contains (?lo c) (?lo choose_text)"
    using yes recs by simp
  have all: "\<forall>c \<in> set (context_recommendations awaiting_data).
      \<not> contains (?lo c) (?lo ''tell me more'')"
    using no2 no3 recs by simp
  have map: "get_career_roadmap ascii_python ''Data Scientist'' =
          emoji_books @ '' Data Scientist Skill Roadmap:\<newline>'' @
          ''1. Python, Pandas, NumPy\<newline>'' @
          ''2. Data Visualization (Matplotlib, Seaborn)\<newline>'' @
          ''3. Machine Learning (scikit-learn, TensorFlow)\<newline>'' @
          ''4. SQL for data querying\<newline>'' @
          ''5. Statistical Analysis\<newline>'' @
          ''6. Model Deployment''"
    by code_simp
  have bullets: "bullet_list [''Data Scientist'', ''Data Analyst''] =
      ''- Data Scientist\<newline>- Data Analyst''"
    by code_simp
  have m1: "awaiting_data\<lparr>context_career := Some ''Data Scientist'', awaiting_selection := False,
                            cm_current_agent := Skill\<rparr> =
      \<lparr>cm_current_agent = Skill, context_career = Some ''Data Scientist'',
       context_recommendations = [''Data Scientist'', ''Data Analyst''],
       awaiting_selection = False\<rparr>"
    by (simp add: awaiting_data_def CareerMentor_init_def)
  have m0: "awaiting_data =
      \<lparr>cm_current_agent = Career, context_career = None,
       context_recommendations = [''Data Scientist'', ''Data Analyst''],
       awaiting_selection = True\<rparr>"
    by (simp add: awaiting_data_def CareerMentor_init_def)
  note th = career_selection [OF a, where py = ascii_python]
  from th [where inp = choose_text, THEN conjunct1, THEN mp, OF ex]
  obtain c where c: "c \<in> set (context_recommendations awaiting_data)"
      "contains (?lo c) (?lo choose_text)"
      "run ascii_python awaiting_data choose_text =
         Inr (awaiting_data\<lparr>context_career := Some c, awaiting_selection := False,
                             cm_current_agent := Skill\<rparr>,
              get_career_roadmap ascii_python c @ ''\<newline>\<newline>Type '' @ [CHR 0x27] @ ''jobs'' @
              [CHR 0x27] @ '' to see career opportunities'')"
    by blast
  from c(1,2) recs no1 have "c = ''Data Scientist''" by auto
  with c(3) have sel: "run ascii_python awaiting_data choose_text =
     Inr (\<lparr>cm_current_agent = Skill, context_career = Some ''Data Scientist'',
            context_recommendations = [''Data Scientist'', ''Data Analyst''],
            awaiting_selection = False\<rparr>,
          emoji_books @ '' Data Scientist Skill Roadmap:\<newline>'' @
          ''1. Python, Pandas, NumPy\<newline>'' @
          ''2. Data Visualization (Matplotlib, Seaborn)\<newline>'' @
          ''3. Machine Learning (scikit-learn, TensorFlow)\<newline>'' @
          ''4. SQL for data querying\<newline>'' @
          ''5. Statistical Analysis\<newline>'' @
          ''6. Model Deployment'' @
          ''\<newline>\<newline>Type '' @ [CHR 0x27] @ ''jobs'' @ [CHR 0x27] @ '' to see career opportunities'')"
    by (simp only: m1 map append_assoc)
  from th [where inp = "''tell me more''", THEN conjunct2, THEN mp, OF all]
  have again: "run ascii_python awaiting_data ''tell me more'' =
     Inr (\<lparr>cm_current_agent = Career, context_career = None,
            context_recommendations = [''Data Scientist'', ''Data Analyst''],
            awaiting_selection = True\<rparr>,
          emoji_warning @ '' Please select a career from the recommendations:\<newline>'' @
          ''- Data Scientist\<newline>- Data Analyst'' @
          ''\<newline>\<newline>Or describe your interests for new suggestions.'')"
    unfolding recs bullets by (subst (asm) (2) m0) simp
  show ?thesis
    by (intro conjI) (rule first a recs yes no2 no3 sel again)+
qed

section \<open>Ending a session\<close>

lemma game_turn_asks:
  assumes "game_turn py env gm w out u = Some (e, gm', w', out')"
  shows "last_action (state gm') = u \<and>
         (\<exists>answer. generate_response env (current_agent gm)
                      ((state gm)\<lparr>last_action := u\<rparr>) w u = Some (answer, w'))"
proof -
  let ?gm1 = "gm\<lparr>state := (state gm)\<lparr>last_action := u\<rparr>\<rparr>"
  let ?g = "generate_response env (current_agent gm) ((state gm)\<lparr>last_action := u\<rparr>) w u"
  from assms obtain answer w1 where g: "?g = Some (answer, w1)"
    by (cases ?g) (auto simp: game_turn_def Let_def)
  show ?thesis
  proof (cases answer)
    case (Inl x)
    with assms g show ?thesis by (auto simp: game_turn_def Let_def)
  next
    case (Inr reply)
    show ?thesis
    proof (cases reply)
      case None
      with assms g Inr show ?thesis by (auto simp: game_turn_def Let_def)
    next
      case (Some response)
      show ?thesis
      proof (cases "process_response py ?gm1 response")
        case (Inl x)
        with assms g Inr Some show ?thesis by (auto simp: game_turn_def Let_def)
      next
        case r: (Inr p)
        obtain gm2 shown where p: "p = (gm2, shown)" by (cases p)
        from process_response_last_action [OF r [unfolded p]]
        have "last_action (state gm2) = u" by simp
        with assms g Inr Some r p show ?thesis
          by (auto simp: game_turn_def Let_def split: if_splits)
      qed
    qed
  qed
qed

text \<open>
  C8 (as amended). In the career mentor a line that, trimmed and in lower case, equals
  \<open>exit\<close> or \<open>quit\<close> ends the session normally (exit code 0) and is not processed. In
  the game master only \<open>quit\<close> does so; every other line, \<open>exit\<close> among them, is
  processed as a turn: the run goes on as the turn for that line says, and the turn
  records the line as the last action and asks the current agent about it.
\<close>

theorem quit_words:
  "((py_lower py (py_strip py line) = ''exit'' \<or> py_lower py (py_strip py line) = ''quit'') \<longrightarrow>
      mentor_loop py m out (line # rest) =
        (Finished, m, out @ [''You: '', ''Goodbye! '' @ emoji_wave]) \<and>
      exit_code Finished = 0) \<and>
   (\<not> game_over (state gm) \<and> py_lower py (py_strip py line) = ''quit'' \<longrightarrow>
      game_loop py env gm w out (line # rest) =
        Some (Finished, gm, w,
              out @ display_status gm @ [agent_name gm @ '' > '', ''Thanks for playing!'']) \<and>
      exit_code Finished = 0) \<and>
   (\<not> game_over (state gm) \<and> py_lower py (py_strip py line) \<noteq> ''quit'' \<longrightarrow>
      game_loop py env gm w out (line # rest) =
        (case game_turn py env gm w (out @ display_status gm @ [agent_name gm @ '' > ''])
                (py_strip py line) of
           None \<Rightarrow> None
         | Some (Some e, gm2, w1, out2) \<Rightarrow> Some (e, gm2, w1, out2)
         | Some (None, gm2, w1, out2) \<Rightarrow> game_loop py env gm2 w1 out2 rest)) \<and>
   (game_turn py env gm w out u = Some (e, gm', w', out') \<longrightarrow>
      last_action (state gm') = u \<and>
      (\<exists>answer. generate_response env (current_agent gm)
                   ((state gm)\<lparr>last_action := u\<rparr>) w u = Some (answer, w')))"
proof (intro conjI impI)
  assume "py_lower py (py_strip py line) = ''exit'' \<or> py_lower py (py_strip py line) = ''quit''"
  then show "mentor_loop py m out (line # rest) =
        (Finished, m, out @ [''You: '', ''Goodbye! '' @ emoji_wave])"
    by (auto simp: Let_def)
next
  show "exit_code Finished = 0" by (simp add: exit_code_def)
next
  assume "\<not> game_over (state gm) \<and> py_lower py (py_strip py line) = ''quit''"
  then show "game_loop py env gm w out (line # rest) =
        Some (Finished, gm, w,
              out @ display_status gm @ [agent_name gm @ '' > '', ''Thanks for playing!''])"
    by (simp add: Let_def)
next
  show "exit_code Finished = 0" by (simp add: exit_code_def)
next
  assume "\<not> game_over (state gm) \<and> py_lower py (py_strip py line) \<noteq> ''quit''"
  then show "game_loop py env gm w out (line # rest) =
        (case game_turn py env gm w (out @ display_status gm @ [agent_name gm @ '' > ''])
                (py_strip py line) of
           None \<Rightarrow> None
         | Some (Some e, gm2, w1, out2) \<Rightarrow> Some (e, gm2, w1, out2)
         | Some (None, gm2, w1, out2) \<Rightarrow> game_loop py env gm2 w1 out2 rest)"
    by (simp add: Let_def)
next
  assume t: "game_turn py env gm w out u = Some (e, gm', w', out')"
  from game_turn_asks [OF t] show "last_action (state gm') = u" by blast
next
  assume t: "game_turn py env gm w out u = Some (e, gm', w', out')"
  from game_turn_asks [OF t]
  show "\<exists>answer. generate_response env (current_agent gm)
                   ((state gm)\<lparr>last_action := u\<rparr>) w u = Some (answer, w')"
    by blast
qed

text \<open>
  The mentor's program, given the line \<open>EXIT\<close>, prints its banner, the prompt and the
  farewell, and ends. The game, whose narrator always answers \<open>A road.\<close>, takes
  \<open>go north\<close> as a turn (the second request to the narrator, whose answer is printed),
  and the line \<open>Quit\<close> behind it ends the game.
\<close>

theorem quit_words_witness:
  "py_lower ascii_python (py_strip ascii_python ''EXIT'') = ''exit'' \<and>
   mentor_main ascii_python [''EXIT'', ''data''] =
     (Finished, CareerMentor_init,
      [emoji_star @ '' Career Mentor Agent '' @ emoji_star,
       ''Describe your interests (e.g. '' @ [CHR 0x27] @ ''I enjoy problem solving with data'' @
       [CHR 0x27] @ '')'',
       ''Type '' @ [CHR 0x27] @ ''exit'' @ [CHR 0x27] @ '' to quit\<newline>'',
       ''You: '', ''Goodbye! '' @ emoji_wave]) \<and>
   \<not> game_over (state GameMaster_init) \<and>
   py_lower ascii_python (py_strip ascii_python ''go north'') \<noteq> ''quit'' \<and>
   py_lower ascii_python (py_strip ascii_python '' Quit '') = ''quit'' \<and>
   game_turn ascii_python (always_gm (Inr (text_reply ''A road.''))) GameMaster_init (1::nat)
       (banner @ [''\<newline>Narrator: A road.\<newline>''] @ display_status GameMaster_init @ [''Narrator > ''])
       ''go north'' =
     Some (None, north_of_start, 2,
           banner @ [''\<newline>Narrator: A road.\<newline>''] @ display_status GameMaster_init @
           [''Narrator > '', ''\<newline>Narrator: A road.\<newline>'']) \<and>
   last_action (state north_of_start) = ''go north'' \<and>
   start_game ascii_python (always_gm (Inr (text_reply ''A road.''))) GameMaster_init (0::nat)
       [''go north'', '' Quit '', ''look''] =
     Some (Finished, north_of_start, 2,
           banner @ [''\<newline>Narrator: A road.\<newline>''] @ display_status GameMaster_init @
           [''Narrator > '', ''\<newline>Narrator: A road.\<newline>''] @
           display_status north_of_start @ [''Narrator > '', ''Thanks for playing!'']) \<and>
   display_status north_of_start =
     [''\<newline>=== ADVENTURE STATUS ==='', ''Health: 100 HP'', ''Inventory: Empty'',
      ''Location: Forest Entrance'', ''========================''] \<and>
   exit_code Finished = 0"
proof -
  let ?env = "always_gm (Inr (text_reply ''A road.''))"
  let ?out0 = "banner @ [''\<newline>Narrator: A road.\<newline>'']"
  let ?out1 = "?out0 @ display_status GameMaster_init @ [''Narrator > '']"
  let ?out2 = "?out0 @ display_status GameMaster_init @
               [''Narrator > '', ''\<newline>Narrator: A road.\<newline>'']"
  let ?hello = "[emoji_star @ '' Career Mentor Agent '' @ emoji_star,
       ''Describe your interests (e.g. '' @ [CHR 0x27] @ ''I enjoy problem solving with data'' @
       [CHR 0x27] @ '')'',
       ''Type '' @ [CHR 0x27] @ ''exit'' @ [CHR 0x27] @ '' to quit\<newline>'']"
  have x: "py_lower ascii_python (py_strip ascii_python ''EXIT'') = ''exit''" by code_simp
  have g: "\<not> game_over (state GameMaster_init)"
    by (simp add: GameMaster_init_def GameState_init_def)
  have g2: "\<not> game_over (state north_of_start)"
    by (simp add: north_of_start_def GameMaster_init_def GameState_init_def)
  have an: "agent_name GameMaster_init = ''Narrator''" "agent_name north_of_start = ''Narrator''"
    by (simp_all add: north_of_start_def GameMaster_init_def)
  have n: "py_lower ascii_python (py_strip ascii_python ''go north'') \<noteq> ''quit''" by code_simp
  have s: "py_strip ascii_python ''go north'' = ''go north''" by code_simp
  have q: "py_lower ascii_python (py_strip ascii_python '' Quit '') = ''quit''" by code_simp
  have t: "game_turn ascii_python ?env GameMaster_init (1::nat) ?out1 ''go north'' =
     Some (None, north_of_start, 2, ?out2)"
    by code_simp
  have ds: "display_status north_of_start =
     [''\<newline>=== ADVENTURE STATUS ==='', ''Health: 100 HP'', ''Inventory: Empty'',
      ''Location: Forest Entrance'', ''========================'']"
    by code_simp
  have gr: "generate_response ?env NarratorAgent (state GameMaster_init) (0::nat)
              ''Begin the adventure'' = Some (Inr (Some ''A road.''), 1)"
    by code_simp
  have sg: "start_game ascii_python ?env GameMaster_init (0::nat) stdin =
            game_loop ascii_python ?env GameMaster_init 1 ?out0 stdin" for stdin
    by (simp add: start_game_def gr banner_def str_opt_def)
  note th = quit_words [where py = ascii_python and env = ?env and w = "1::nat"]
  have a: "mentor_main ascii_python [''EXIT'', ''data''] =
     (Finished, CareerMentor_init, ?hello @ [''You: '', ''Goodbye! '' @ emoji_wave])"
    unfolding mentor_main_def
    using th [where line = "''EXIT''" and m = CareerMentor_init and out = ?hello
        and rest = "[''data'']", THEN conjunct1] x
    by simp
  have z: "exit_code Finished = 0"
    using th [where line = "''EXIT''" and m = CareerMentor_init and out = ?hello
        and rest = "[''data'']", THEN conjunct1] x
    by simp
  have l: "last_action (state north_of_start) = ''go north''"
    using th [where gm = GameMaster_init and out = ?out1 and u = "''go north''" and e = None
        and gm' = north_of_start and w' = 2 and out' = ?out2,
        THEN conjunct2, THEN conjunct2, THEN conjunct2, THEN mp, OF t]
    by simp
  have b: "game_loop ascii_python ?env north_of_start (2::nat) ?out2 ['' Quit '', ''look''] =
     Some (Finished, north_of_start, 2,
           ?out2 @ display_status north_of_start @ [''Narrator > '', ''Thanks for playing!''])"
    using quit_words [where py = ascii_python and env = ?env and w = "2::nat"
        and gm = north_of_start and line = "'' Quit ''" and out = ?out2 and rest = "[''look'']",
        THEN conjunct2, THEN conjunct1] g2 q an
    by simp
  have o: "?out0 @ display_status GameMaster_init @ [agent_name GameMaster_init @ '' > ''] = ?out1"
    by (simp add: an)
  have c: "game_loop ascii_python ?env GameMaster_init (1::nat) ?out0
       [''go north'', '' Quit '', ''look''] =
     Some (Finished, north_of_start, 2,
           ?out2 @ display_status north_of_start @ [''Narrator > '', ''Thanks for playing!''])"
    unfolding th [where gm = GameMaster_init and line = "''go north''" and out = ?out0
        and rest = "['' Quit '', ''look'']", THEN conjunct2, THEN conjunct2, THEN conjunct1,
        THEN mp, OF conjI [OF g n]] o s t
    by (simp only: option.case prod.case b)
  have c': "start_game ascii_python ?env GameMaster_init (0::nat) [''go north'', '' Quit '', ''look''] =
     Some (Finished, north_of_start, 2,
           banner @ [''\<newline>Narrator: A road.\<newline>''] @ display_status GameMaster_init @
           [''Narrator > '', ''\<newline>Narrator: A road.\<newline>''] @
           display_status north_of_start @ [''Narrator > '', ''Thanks for playing!''])"
    unfolding sg c by simp
  from a have a': "mentor_main ascii_python [''EXIT'', ''data''] =
     (Finished, CareerMentor_init,
      [emoji_star @ '' Career Mentor Agent '' @ emoji_star,
       ''Describe your interests (e.g. '' @ [CHR 0x27] @ ''I enjoy problem solving with data'' @
       [CHR 0x27] @ '')'',
       ''Type '' @ [CHR 0x27] @ ''exit'' @ [CHR 0x27] @ '' to quit\<newline>'',
       ''You: '', ''Goodbye! '' @ emoji_wave])"
    by simp
  from t have t': "game_turn ascii_python ?env GameMaster_init (1::nat)
       (banner @ [''\<newline>Narrator: A road.\<newline>''] @ display_status GameMaster_init @ [''Narrator > ''])
       ''go north'' =
     Some (None, north_of_start, 2,
           banner @ [''\<newline>Narrator: A road.\<newline>''] @ display_status GameMaster_init @
           [''Narrator > '', ''\<newline>Narrator: A road.\<newline>''])"
    by simp
  show ?thesis
    by (intro conjI) (rule x a' g n q t' l c' ds z)+
qed

text \<open>
  The claim as written fails for the game master: the line \<open>exit\<close> is processed as a
  turn. With a narrator that answers with what it was asked, the game prints the state
  with \<open>exit\<close> as the last action and the player's line; the run then ends with
  \<open>EOFError\<close> at the end of the input, exit code 1.
\<close>

theorem game_master_exit_counterexample:
  "py_lower ascii_python (py_strip ascii_python ''exit'') = ''exit'' \<and>
   start_game ascii_python echo_gm GameMaster_init [] [''exit''] =
     Some (Uncaught EOFError,
           \<lparr>state = \<lparr>player_health = 100, player_inventory = [],
                     current_location = ''Forest Entrance'', game_over = False,
                     combat_active = False, monster = None, item_discovered = None,
                     last_action = ''exit''\<rparr>,
            current_agent = NarratorAgent, agent_name = ''Narrator''\<rparr>,
           [Some [RollDiceTool, GenerateEventTool], Some [RollDiceTool, GenerateEventTool]],
           banner @
           [''\<newline>Narrator: Location: Forest Entrance\<newline>Health: 100 HP\<newline>'' @
            ''Inventory: Empty\<newline>Last Action: \<newline>\<newline>Player: Begin the adventure\<newline>'',
            ''\<newline>=== ADVENTURE STATUS ==='', ''Health: 100 HP'', ''Inventory: Empty'',
            ''Location: Forest Entrance'', ''========================'',
            ''Narrator > '',
            ''\<newline>Narrator: Location: Forest Entrance\<newline>Health: 100 HP\<newline>'' @
            ''Inventory: Empty\<newline>Last Action: exit\<newline>\<newline>Player: exit\<newline>'',
            ''\<newline>=== ADVENTURE STATUS ==='', ''Health: 100 HP'', ''Inventory: Empty'',
            ''Location: Forest Entrance'', ''========================'',
            ''Narrator > '']) \<and>
   exit_code (Uncaught EOFError) = 1"
  by code_simp

section \<open>The retry policy of the travel designer\<close>


lemma handle_rate_limit_permanent:
  "\<not> classified_transient py e \<Longrightarrow> handle_rate_limit py td e a = (False, td)"
  by (simp add: handle_rate_limit_def classified_transient_def)

lemma api_calls_append: "api_calls (xs @ ys) = api_calls xs + api_calls ys"
  by (simp add: api_calls_def)








text \<open>
  C1 (as amended). A failure that \<open>handle_rate_limit\<close> does not classify as transient is
  not retried: at whatever attempt it occurs, \<open>call_openai\<close> raises it at once, after that
  single request and without a sleep. The classification decides whether another attempt
  is made, not only whether a delay is slept.
\<close>

theorem permanent_failure_not_retried:
  assumes "td_client env (td_world td) (td_messages td)
             (if ag_tools (td_current_agent td) \<noteq> [] then Some all_tools else None) = (Inl e, w')"
    and "\<not> classified_transient py e"
  shows "call_openai_loop py env td (attempt # rest) =
           (Inl e, td\<lparr>td_world := w', td_trace := td_trace td @ [ApiCall]\<rparr>) \<and>
         (0 < max_retries td \<longrightarrow>
            call_openai py env td = (Inl e, td\<lparr>td_world := w', td_trace := td_trace td @ [ApiCall]\<rparr>))"
proof -
  have l: "call_openai_loop py env td (a # r) =
           (Inl e, td\<lparr>td_world := w', td_trace := td_trace td @ [ApiCall]\<rparr>)" for a r
    using assms by (simp add: handle_rate_limit_permanent Let_def)
  have "0 < max_retries td \<Longrightarrow> [0..<max_retries td] = 0 # [1..<max_retries td]"
    by (simp add: upt_conv_Cons)
  with l show ?thesis by (simp add: call_openai_def)
qed

theorem permanent_failure_not_retried_witness:
  "\<not> classified_transient ascii_python ''Invalid API key'' \<and> 0 < max_retries (TravelDesigner_init (0::nat)) \<and>
   call_openai ascii_python (always_td (Inl ''Invalid API key'')) (TravelDesigner_init 0) =
     (Inl ''Invalid API key'', (TravelDesigner_init 0)\<lparr>td_world := 1, td_trace := [ApiCall]\<rparr>)"
proof -
  have c: "\<not> classified_transient ascii_python ''Invalid API key''" by code_simp
  have m: "0 < max_retries (TravelDesigner_init (0::nat))" by (simp add: TravelDesigner_init_def)
  have t: "td_trace (TravelDesigner_init (0::nat)) = []" "td_world (TravelDesigner_init (0::nat)) = 0"
    by (simp_all add: TravelDesigner_init_def)
  have cl: "td_client (always_td (Inl ''Invalid API key'')) (td_world (TravelDesigner_init (0::nat)))
        (td_messages (TravelDesigner_init (0::nat)))
        (if ag_tools (td_current_agent (TravelDesigner_init (0::nat))) \<noteq> [] then Some all_tools else None) =
      (Inl ''Invalid API key'', 1)"
    by (simp add: always_td_def t)
  from permanent_failure_not_retried [OF cl c, where attempt = 0 and rest = "[]"] m t c show ?thesis by simp
qed

text \<open>
  The claim as written fails: an endpoint that always raises a permanent error is asked
  once, one that always raises a transient error five times.
\<close>

theorem retry_count_counterexample:
  "\<not> classified_transient ascii_python ''Invalid API key'' \<and> classified_transient ascii_python ''Rate limit exceeded'' \<and>
   api_calls (td_trace (snd (call_openai ascii_python (always_td (Inl ''Invalid API key''))
                                        (TravelDesigner_init (0::nat))))) = 1 \<and>
   api_calls (td_trace (snd (call_openai ascii_python (always_td (Inl ''Rate limit exceeded''))
                                        (TravelDesigner_init (0::nat))))) = 5"
  by code_simp

section \<open>The tool-call rounds\<close>

lemma answers_Nil: "answers [] results \<longleftrightarrow> results = []"
  by (simp add: answers_def)

lemma answers_one_iff:
  "answers_one tc m \<longleftrightarrow> (\<exists>c. m = ToolMsg (tc_id tc) (tc_name tc) c)"
  by (cases m) auto

lemma answers_Cons:
  "answers (tc # tcs) results \<longleftrightarrow>
     (\<exists>c rest. results = ToolMsg (tc_id tc) (tc_name tc) c # rest \<and> answers tcs rest)"
  unfolding answers_def list_all2_Cons1 answers_one_iff by blast

lemma answers_length: "answers calls results \<Longrightarrow> length results = length calls"
  by (simp add: answers_def list_all2_lengthD)

lemma answers_ids: "answers calls results \<Longrightarrow> map tool_call_id results = map tc_id calls"
proof (induction calls arbitrary: results)
  case Nil
  then show ?case by (simp add: answers_Nil)
next
  case (Cons tc tcs)
  then show ?case by (auto simp: answers_Cons)
qed

lemma answers_names: "answers calls results \<Longrightarrow> map tool_name results = map tc_name calls"
proof (induction calls arbitrary: results)
  case Nil
  then show ?case by (simp add: answers_Nil)
next
  case (Cons tc tcs)
  then show ?case by (auto simp: answers_Cons)
qed

lemma answers_unique:
  assumes "answers calls results" and "distinct (map tc_id calls)" and "r \<in> set results"
  shows "\<exists>!tc. tc \<in> set calls \<and> tc_id tc = tool_call_id r"
proof -
  from assms(1,3) have "tool_call_id r \<in> set (map tc_id calls)"
    using answers_ids [OF assms(1)] by (metis image_eqI list.set_map)
  then obtain tc where tc: "tc \<in> set calls" "tc_id tc = tool_call_id r" by auto
  moreover have "tc' = tc" if "tc' \<in> set calls" "tc_id tc' = tool_call_id r" for tc'
    using that tc assms(2) by (metis distinct_map inj_onD)
  ultimately show ?thesis by blast
qed

lemma gm_dispatch_answers:
  "gm_dispatch env w messages calls = (Inr messages', w') \<Longrightarrow>
   \<exists>results. messages' = messages @ results \<and> answers calls results"
proof (induction calls arbitrary: w messages)
  case Nil
  then show ?case by (simp add: answers_Nil)
next
  case (Cons tc tcs)
  from Cons.prems obtain args where args: "gm_loads env (tc_arguments tc) = Some args"
    by (cases "gm_loads env (tc_arguments tc)") (simp_all add: Let_def)
  let ?h = "if tc_name tc = ''roll_dice'' then roll_dice env w args
            else if tc_name tc = ''generate_event'' then generate_event env w args
            else (Inr (''Error: Unknown function '' @ tc_name tc), w)"
  obtain res w1 where h: "?h = (res, w1)" by (cases ?h)
  with Cons.prems args obtain result where res: "res = Inr result"
    by (cases res) (simp_all add: Let_def)
  from Cons.prems args h res
  have "gm_dispatch env w1 (messages @ [ToolMsg (tc_id tc) (tc_name tc) (Text result)]) tcs =
          (Inr messages', w')"
    by (simp add: Let_def)
  from Cons.IH [OF this] obtain results where
    "messages' = (messages @ [ToolMsg (tc_id tc) (tc_name tc) (Text result)]) @ results"
    "answers tcs results" by blast
  then have "messages' = messages @ (ToolMsg (tc_id tc) (tc_name tc) (Text result) # results) \<and>
      answers (tc # tcs) (ToolMsg (tc_id tc) (tc_name tc) (Text result) # results)"
    by (simp add: answers_Cons)
  then show ?case by blast
qed

lemma gm_round_answers:
  assumes "gm_round env w messages calls = (Inr messages', w')"
  shows "\<exists>results. messages' = messages @ AssistantToolCalls calls # results \<and>
                   answers calls results"
  using assms unfolding gm_round_def using gm_dispatch_answers by fastforce

lemma process_tool_calls_from_answers:
  "process_tool_calls_from env acc calls = Inr outs \<Longrightarrow>
   \<exists>results. outs = acc @ results \<and> answers calls results"
proof (induction calls arbitrary: acc)
  case Nil
  then show ?case by (simp add: answers_Nil)
next
  case (Cons tc tcs)
  from Cons.prems obtain args where args: "td_loads env (tc_arguments tc) = Inr args"
    by (cases "td_loads env (tc_arguments tc)") (simp_all add: Let_def)
  let ?m = "ToolMsg (tc_id tc) (tc_name tc) (JsonDumps (tool_output_for env (tc_name tc) args))"
  from Cons.prems args have "process_tool_calls_from env (acc @ [?m]) tcs = Inr outs"
    by (simp add: Let_def)
  from Cons.IH [OF this] obtain results where
    "outs = (acc @ [?m]) @ results" "answers tcs results" by blast
  then have "outs = acc @ (?m # results) \<and> answers (tc # tcs) (?m # results)"
    by (simp add: answers_Cons)
  then show ?case by blast
qed

lemma process_tool_calls_answers:
  assumes "process_tool_calls env calls = Inr outs"
  shows "answers calls outs"
  using assms unfolding process_tool_calls_def using process_tool_calls_from_answers by fastforce

text \<open>A round completes when every argument text decodes and no handler raises.\<close>

lemma process_tool_calls_from_total:
  "\<forall>c \<in> set calls. \<exists>j. td_loads env (tc_arguments c) = Inr j \<Longrightarrow>
   \<exists>outs. process_tool_calls_from env acc calls = Inr outs"
proof (induction calls arbitrary: acc)
  case Nil
  then show ?case by simp
next
  case (Cons tc tcs)
  then obtain j where "td_loads env (tc_arguments tc) = Inr j" by auto
  with Cons show ?case by (simp add: Let_def)
qed

lemma gm_dispatch_total:
  assumes "\<forall>w j. \<exists>r w'. roll_dice env w j = (Inr r, w')"
    and "\<forall>w j. \<exists>r w'. generate_event env w j = (Inr r, w')"
  shows "\<forall>c \<in> set calls. \<exists>j. gm_loads env (tc_arguments c) = Some j \<Longrightarrow>
         \<exists>messages' w'. gm_dispatch env w messages calls = (Inr messages', w')"
proof (induction calls arbitrary: w messages)
  case Nil
  then show ?case by simp
next
  case (Cons tc tcs)
  then obtain j where j: "gm_loads env (tc_arguments tc) = Some j" by auto
  from assms(1) obtain r1 w1 where r1: "roll_dice env w j = (Inr r1, w1)" by blast
  from assms(2) obtain r2 w2 where r2: "generate_event env w j = (Inr r2, w2)" by blast
  from Cons.prems have rest: "\<forall>c \<in> set tcs. \<exists>j. gm_loads env (tc_arguments c) = Some j" by simp
  show ?case
    using j r1 r2 Cons.IH [OF rest] by (simp add: Let_def)
qed

subsection \<open>Answered transcripts\<close>

lemma answered_append: "answered xs \<Longrightarrow> answered ys \<Longrightarrow> answered (xs @ ys)"
proof (induction xs rule: answered.induct)
  case (2 calls rest)
  then have a: "answers calls (take (length calls) rest)"
    and d: "answered (drop (length calls) rest)"
    by simp_all
  from answers_length [OF a] have le: "length calls \<le> length rest" by simp
  from 2 d have "answered (drop (length calls) rest @ ys)" by simp
  with a le show ?case by simp
qed simp_all

lemma answered_round: "answers calls results \<Longrightarrow> answered (AssistantToolCalls calls # results)"
  using answers_length [of calls results] by simp

lemma answered_but_last_snoc:
  "answered xs \<Longrightarrow> answered_but_last (xs @ [AssistantToolCalls calls])"
  by (simp add: answered_but_last_def)

lemma started_append: "started xs \<Longrightarrow> answered ys \<Longrightarrow> started (xs @ ys)"
  by (cases xs) (auto simp: started_def answered_append split: message.splits)

lemma started_overwrite: "started xs \<Longrightarrow> started (xs[0 := SystemMsg t])"
  by (cases xs) (auto simp: started_def split: message.splits)

lemma started_nonempty: "started xs \<Longrightarrow> xs \<noteq> []"
  by (auto simp: started_def)

lemma started_but_last_I: "started xs \<Longrightarrow> started_but_last xs"
  by (cases xs) (auto simp: started_def started_but_last_def answered_but_last_def
      split: message.splits)

lemma started_but_last_snoc:
  "started xs \<Longrightarrow> started_but_last (xs @ [AssistantToolCalls calls])"
  by (cases xs) (auto simp: started_def started_but_last_def answered_but_last_snoc
      split: message.splits)

text \<open>
  The game master's loop only extends the transcript, by rounds: what it appends is
  answered.
\<close>

lemma process_tool_calls_gm_appends:
  assumes "process_tool_calls_gm env tools w messages = Some y"
  shows "\<forall>final transcript w'. y = (Inr (final, transcript), w') \<longrightarrow>
            (\<exists>suffix. transcript = messages @ suffix \<and> answered suffix)"
proof (rule process_tool_calls_gm.raw_induct
    [where P = "\<lambda>env tools w messages y.
         \<forall>final transcript w'. y = (Inr (final, transcript), w') \<longrightarrow>
            (\<exists>suffix. transcript = messages @ suffix \<and> answered suffix)",
     OF _ assms], goal_cases)
  case (1 loop env tools w messages y)
  let ?c = "gm_client env w messages (if tools \<noteq> [] then Some tools else None)"
  obtain res w1 where c: "?c = (res, w1)" by (cases ?c)
  show ?case
  proof (cases res)
    case (Inl e)
    with 1(2) c show ?thesis by auto
  next
    case (Inr response)
    show ?thesis
    proof (cases "tool_calls response = []")
      case True
      with 1(2) c Inr show ?thesis by auto
    next
      case False
      obtain rr w2 where r: "gm_round env w1 messages (tool_calls response) = (rr, w2)"
        by (cases "gm_round env w1 messages (tool_calls response)")
      show ?thesis
      proof (cases rr)
        case (Inl e)
        with 1(2) c Inr False r show ?thesis by auto
      next
        case inr: (Inr messages1)
        from gm_round_answers [OF r [unfolded inr]] obtain results where
          m1: "messages1 = messages @ AssistantToolCalls (tool_calls response) # results"
          and an: "answers (tool_calls response) results"
          by blast
        from 1(2) c Inr False r inr have rec: "loop env tools w2 messages1 = Some y" by simp
        note ih = 1(1) [OF rec]
        show ?thesis
        proof (intro impI allI)
          fix final transcript w'
          assume y: "y = (Inr (final, transcript), w')"
          with ih obtain suffix where
            s: "transcript = messages1 @ suffix" "answered suffix" by blast
          have "answered (AssistantToolCalls (tool_calls response) # results)"
            using an by (rule answered_round)
          then have "answered ((AssistantToolCalls (tool_calls response) # results) @ suffix)"
            using s(2) by (rule answered_append)
          moreover have "transcript =
              messages @ (AssistantToolCalls (tool_calls response) # results) @ suffix"
            using s(1) m1 by simp
          ultimately show "\<exists>suffix. transcript = messages @ suffix \<and> answered suffix"
            by blast
        qed
      qed
    qed
  qed
qed

text \<open>The retry loop of the travel designer does not touch the transcript.\<close>

lemma call_openai_loop_messages:
  "td_messages (snd (call_openai_loop py env td attempts)) = td_messages td"
proof (induction attempts arbitrary: td)
  case Nil
  then show ?case by simp
next
  case (Cons attempt rest)
  let ?c = "td_client env (td_world td) (td_messages td)
              (if ag_tools (td_current_agent td) \<noteq> [] then Some all_tools else None)"
  obtain res w where c: "?c = (res, w)" by (cases ?c)
  show ?case
  proof (cases res)
    case (Inr response)
    with c show ?thesis by simp
  next
    case (Inl e)
    with c Cons.IH show ?thesis
      by (auto simp: Let_def handle_rate_limit_def)
  qed
qed

lemma call_openai_messages:
  "call_openai py env td = (res, td1) \<Longrightarrow> td_messages td1 = td_messages td"
  using call_openai_loop_messages [of py env td "[0..<max_retries td]"]
  by (simp add: call_openai_def)

text \<open>
  \<open>process_request\<close> leaves a transcript that is answered up to its last request; the
  last request is without results when decoding its arguments raised.
\<close>

lemma process_request_started:
  assumes "process_request py env td = Some y"
  shows "started (td_messages td) \<longrightarrow> started_but_last (td_messages (snd y))"
proof (rule process_request.raw_induct
    [where P = "\<lambda>py env td y. started (td_messages td) \<longrightarrow>
                  started_but_last (td_messages (snd y))",
     OF _ assms], goal_cases)
  case (1 loop py env td y)
  obtain res td1 where c: "call_openai py env td = (res, td1)"
    by (cases "call_openai py env td")
  note m1 = call_openai_messages [OF c]
  show ?case
  proof (intro impI)
    assume st: "started (td_messages td)"
    then have st1: "started (td_messages td1)" by (simp add: m1)
    show "started_but_last (td_messages (snd y))"
    proof (cases res)
      case (Inl e)
      with 1(2) c st1 show ?thesis by (auto intro: started_but_last_I)
    next
      case (Inr response)
      show ?thesis
      proof (cases "tool_calls response = []")
        case False
        let ?calls = "tool_calls response"
        show ?thesis
        proof (cases "process_tool_calls env ?calls")
          case (Inl e)
          with 1(2) c Inr False st1 show ?thesis
            by (auto simp: Let_def intro: started_but_last_snoc)
        next
          case outs: (Inr tool_outputs)
          let ?td3 = "td1\<lparr>td_messages := (td_messages td1 @ [AssistantToolCalls ?calls]) @ tool_outputs\<rparr>"
          from 1(2) c Inr False outs have rec: "loop py env ?td3 = Some y"
            by (simp add: Let_def)
          have "answered (AssistantToolCalls ?calls # tool_outputs)"
            by (rule answered_round) (rule process_tool_calls_answers [OF outs])
          with st1 have "started (td_messages td1 @ AssistantToolCalls ?calls # tool_outputs)"
            by (rule started_append)
          then have "started (td_messages ?td3)" by simp
          with 1(1) [OF rec] show ?thesis by blast
        qed
      next
        case True
        let ?reply = "content response"
        let ?td2 = "td1\<lparr>td_messages := td_messages td1 @ [AssistantMsg ?reply],
                        full_plan := full_plan td1 @ [(ag_name (td_current_agent td1), ?reply)]\<rparr>"
        have st2: "started (td_messages ?td2)"
          using started_append [OF st1, of "[AssistantMsg ?reply]"] by simp
        have ne2: "td_messages td1 @ [AssistantMsg ?reply] \<noteq> []" by simp
        have hand: "started ((td_messages td1 @ [AssistantMsg ?reply])[0 := SystemMsg t] @ [UserMsg u])"
          for t u
          using started_append [OF started_overwrite [OF st2 [simplified]], of "[UserMsg u]" t]
          by simp
        have ret: "y = (r, td') \<Longrightarrow> td_messages td' = td_messages ?td2 \<Longrightarrow> ?thesis" for r td'
          using st2 by (auto intro: started_but_last_I)
        show ?thesis
        proof (cases "ag_name (td_current_agent td1) = ''Destination Specialist''")
          case dest: True
          show ?thesis
          proof (cases "extract_destination py ?reply")
            case None
            with 1(2) c Inr True dest have "y = (could_not_determine, ?td2)"
              by (simp add: Let_def)
            then show ?thesis by (rule ret) simp
          next
            case (Some destination)
            show ?thesis
            proof (cases "destination = []")
              case e: True
              with 1(2) c Inr True dest Some have "y = (could_not_determine, ?td2)"
                by (simp add: Let_def)
              then show ?thesis by (rule ret) simp
            next
              case ne: False
              from 1(2) c Inr True dest Some ne
              have "\<exists>td4. loop py env td4 = Some y \<and> started (td_messages td4)"
                apply (simp add: Let_def handoff_to_agent_def)
                apply (rule exI, rule conjI, assumption)
                apply (simp add: hand)
                done
              then obtain td4 where rec: "loop py env td4 = Some y"
                and "started (td_messages td4)" by blast
              with 1(1) [OF rec] show ?thesis by blast
            qed
          qed
        next
          case nodest: False
          let ?done = "case ?reply of None \<Rightarrow> False
               | Some r \<Rightarrow> r \<noteq> [] \<and> contains ''BOOKINGS COMPLETE'' (py_upper py r)"
          show ?thesis
          proof (cases "ag_name (td_current_agent td1) = ''Booking Specialist''")
            case book: True
            show ?thesis
            proof (cases ?done)
              case True
              with 1(2) c Inr \<open>tool_calls response = []\<close> nodest book
              have "\<exists>td4. loop py env td4 = Some y \<and> started (td_messages td4)"
                apply (simp add: Let_def handoff_to_agent_def)
                apply (rule exI, rule conjI, assumption)
                apply (simp add: hand)
                done
              then obtain td4 where rec: "loop py env td4 = Some y"
                and "started (td_messages td4)" by blast
              with 1(1) [OF rec] show ?thesis by blast
            next
              case False
              with 1(2) c Inr \<open>tool_calls response = []\<close> nodest book
              have "y = (final_plan_or_error py ?td2, ?td2)"
                by (simp add: Let_def)
              then show ?thesis by (rule ret) simp
            qed
          next
            case False
            with 1(2) c Inr \<open>tool_calls response = []\<close> nodest
            have "y = (final_plan_or_error py ?td2, ?td2)"
              by (simp add: Let_def)
            then show ?thesis by (rule ret) simp
          qed
        qed
      qed
    qed
  qed
qed

lemma start_conversation_started:
  assumes "start_conversation py env td user_input = Some (reply, td')"
  shows "started_but_last (td_messages td')"
proof -
  let ?td0 = "td\<lparr>td_messages := [SystemMsg (ag_instructions (td_current_agent td)),
                                      UserMsg user_input]\<rparr>"
  from assms have "process_request py env ?td0 = Some (reply, td')"
    by (simp add: start_conversation_def)
  from process_request_started [OF this] show ?thesis
    by (simp add: started_def)
qed

text \<open>
  C3 (as amended). A round with tool calls that completes appends, right behind the
  assistant message with the requests, one tool message for each request, in the order
  of the requests, the \<open>i\<close>-th with the identifier and the name of the \<open>i\<close>-th request.
  So there are as many results as requests, and a result's identifier is that of exactly
  one request when the identifiers of the requests are pairwise distinct, which the code
  does not check. This holds for the round of the game master (\<open>gm_round\<close>, the body of
  the loop of \<open>_process_tool_calls\<close>) and for \<open>process_tool_calls\<close> of the travel
  designer. Hence both programs keep it for whole transcripts. When the loop of the game
  master returns a content, it has extended the transcript it was given by rounds that
  are answered. When \<open>process_request\<close> of the travel designer returns, on an answered
  transcript or from \<open>start_conversation\<close>, the transcript is answered up to its last
  request, which is without results when decoding its arguments raised.
\<close>

theorem tool_results_match_requests:
  "(gm_round env w messages calls = (Inr messages', w') \<longrightarrow>
      (\<exists>results. messages' = messages @ AssistantToolCalls calls # results \<and>
                 answers calls results)) \<and>
   (process_tool_calls tenv calls = Inr outs \<longrightarrow> answers calls outs) \<and>
   (answers calls results \<longrightarrow>
      length results = length calls \<and>
      map tool_call_id results = map tc_id calls \<and>
      map tool_name results = map tc_name calls \<and>
      (distinct (map tc_id calls) \<longrightarrow>
         (\<forall>r \<in> set results. \<exists>!tc. tc \<in> set calls \<and> tc_id tc = tool_call_id r))) \<and>
   (process_tool_calls_gm env tools w history = Some (Inr (final, transcript), w2) \<longrightarrow>
      (\<exists>suffix. transcript = history @ suffix \<and> answered suffix) \<and>
      (answered history \<longrightarrow> answered transcript)) \<and>
   (started (td_messages td) \<and> process_request py tenv td = Some (reply, td') \<longrightarrow>
      started_but_last (td_messages td')) \<and>
   (start_conversation py tenv td user_input = Some (reply, td') \<longrightarrow>
      started_but_last (td_messages td'))"
proof (intro conjI impI)
  assume "gm_round env w messages calls = (Inr messages', w')"
  then show "\<exists>results. messages' = messages @ AssistantToolCalls calls # results \<and>
                 answers calls results"
    by (rule gm_round_answers)
next
  assume "process_tool_calls tenv calls = Inr outs"
  then show "answers calls outs" by (rule process_tool_calls_answers)
next
  assume "answers calls results"
  then show "length results = length calls" by (rule answers_length)
next
  assume "answers calls results"
  then show "map tool_call_id results = map tc_id calls" by (rule answers_ids)
next
  assume "answers calls results"
  then show "map tool_name results = map tc_name calls" by (rule answers_names)
next
  assume "answers calls results" "distinct (map tc_id calls)"
  then show "\<forall>r \<in> set results. \<exists>!tc. tc \<in> set calls \<and> tc_id tc = tool_call_id r"
    using answers_unique by blast
next
  assume a: "process_tool_calls_gm env tools w history = Some (Inr (final, transcript), w2)"
  from process_tool_calls_gm_appends [OF a]
  show "\<exists>suffix. transcript = history @ suffix \<and> answered suffix" by blast
next
  assume a: "process_tool_calls_gm env tools w history = Some (Inr (final, transcript), w2)"
    and h: "answered history"
  from process_tool_calls_gm_appends [OF a] obtain suffix where
    "transcript = history @ suffix" "answered suffix" by blast
  with h show "answered transcript" by (simp add: answered_append)
next
  assume a: "started (td_messages td) \<and> process_request py tenv td = Some (reply, td')"
  from process_request_started [OF a [THEN conjunct2]] a
  show "started_but_last (td_messages td')" by simp
next
  assume "start_conversation py tenv td user_input = Some (reply, td')"
  then show "started_but_last (td_messages td')" by (rule start_conversation_started)
qed

text \<open>
  Two requests with distinct identifiers, one of them for a tool that the program called
  does not have: a round of the game master and the dispatch of the travel designer
  answer both, in order. The game master's loop, asked for them and then given a
  narration, returns the narration and the transcript with the round. The travel
  designer, given a destination, the requests, the completed bookings and a sight,
  returns the plan and leaves a transcript in which the requests are answered.
\<close>

theorem tool_results_match_requests_witness:
  "gm_round (scripted_gm []) [] [UserMsg ''look around''] two_calls =
     (Inr [UserMsg ''look around'', AssistantToolCalls two_calls,
           ToolMsg ''call_1'' ''roll_dice'' (Text ''Dice rolls: [4] (Total: 4)''),
           ToolMsg ''call_2'' ''get_flights'' (Text ''Error: Unknown function get_flights'')], []) \<and>
   answers two_calls
     [ToolMsg ''call_1'' ''roll_dice'' (Text ''Dice rolls: [4] (Total: 4)''),
      ToolMsg ''call_2'' ''get_flights'' (Text ''Error: Unknown function get_flights'')] \<and>
   process_tool_calls (picky_td []) two_calls =
     Inr [ToolMsg ''call_1'' ''roll_dice'' (JsonDumps ToolNotAvailable),
          ToolMsg ''call_2'' ''get_flights'' (JsonDumps FlightsCatalogue)] \<and>
   answers two_calls [ToolMsg ''call_1'' ''roll_dice'' (JsonDumps ToolNotAvailable),
                      ToolMsg ''call_2'' ''get_flights'' (JsonDumps FlightsCatalogue)] \<and>
   length [ToolMsg ''call_1'' ''roll_dice'' (JsonDumps ToolNotAvailable),
           ToolMsg ''call_2'' ''get_flights'' (JsonDumps FlightsCatalogue)] = length two_calls \<and>
   map tool_call_id [ToolMsg ''call_1'' ''roll_dice'' (JsonDumps ToolNotAvailable),
                     ToolMsg ''call_2'' ''get_flights'' (JsonDumps FlightsCatalogue)] =
     map tc_id two_calls \<and>
   map tool_name [ToolMsg ''call_1'' ''roll_dice'' (JsonDumps ToolNotAvailable),
                  ToolMsg ''call_2'' ''get_flights'' (JsonDumps FlightsCatalogue)] =
     map tc_name two_calls \<and>
   distinct (map tc_id two_calls) \<and>
   (\<exists>!tc. tc \<in> set two_calls \<and>
          tc_id tc = tool_call_id (ToolMsg ''call_2'' ''get_flights'' (JsonDumps FlightsCatalogue))) \<and>
   process_tool_calls_gm (scripted_gm narration) [RollDiceTool] []
       [SystemMsg ''Narrate.'', UserMsg ''roll''] =
     Some (Inr (Some ''You rolled a four.'', narrated),
           [(2, Some [RollDiceTool]), (5, Some [RollDiceTool])]) \<and>
   answered [SystemMsg ''Narrate.'', UserMsg ''roll''] \<and>
   answered narrated \<and>
   started (td_messages (fresh_designer [])) \<and>
   left_behind (process_request ascii_python (picky_td journey) (fresh_designer [])) =
     Some (journey_plan, journey_transcript, journey_requests) \<and>
   left_behind
     (start_conversation ascii_python (picky_td journey) (TravelDesigner_init []) ''somewhere warm'') =
     Some (journey_plan, journey_transcript, journey_requests) \<and>
   started_but_last journey_transcript"
proof -
  let ?gouts = "[ToolMsg ''call_1'' ''roll_dice'' (Text ''Dice rolls: [4] (Total: 4)''),
                 ToolMsg ''call_2'' ''get_flights'' (Text ''Error: Unknown function get_flights'')]"
  let ?outs = "[ToolMsg ''call_1'' ''roll_dice'' (JsonDumps ToolNotAvailable),
                ToolMsg ''call_2'' ''get_flights'' (JsonDumps FlightsCatalogue)]"
  let ?h = "[SystemMsg ''Narrate.'', UserMsg ''roll'']"
  have g: "gm_round (scripted_gm []) [] [UserMsg ''look around''] two_calls =
     (Inr ([UserMsg ''look around''] @ AssistantToolCalls two_calls # ?gouts), [])"
    by code_simp
  have t: "process_tool_calls (picky_td []) two_calls = Inr ?outs" by code_simp
  have d: "distinct (map tc_id two_calls)" by code_simp
  have ah: "answered ?h" by simp
  have run: "process_tool_calls_gm (scripted_gm narration) [RollDiceTool] [] ?h =
     Some (Inr (Some ''You rolled a four.'', narrated),
           [(2, Some [RollDiceTool]), (5, Some [RollDiceTool])])"
    by code_simp
  have st: "started (td_messages (fresh_designer []))"
    by (simp add: fresh_designer_def started_def)
  have rt: "left_behind (process_request ascii_python (picky_td journey) (fresh_designer [])) =
     Some (journey_plan, journey_transcript, journey_requests)"
    by code_simp
  then obtain td1 where
    pr: "process_request ascii_python (picky_td journey) (fresh_designer []) =
           Some (journey_plan, td1)"
    and tr: "td_messages td1 = journey_transcript"
    unfolding left_behind_def by auto
  have sc: "left_behind
     (start_conversation ascii_python (picky_td journey) (TravelDesigner_init []) ''somewhere warm'') =
     Some (journey_plan, journey_transcript, journey_requests)"
    by code_simp
  then obtain td2 where
    ps: "start_conversation ascii_python (picky_td journey) (TravelDesigner_init []) ''somewhere warm'' =
           Some (journey_plan, td2)"
    and ts: "td_messages td2 = journey_transcript"
    unfolding left_behind_def by auto
  note th = tool_results_match_requests [where env = "scripted_gm []" and w = "[]"
      and messages = "[UserMsg ''look around'']" and calls = two_calls
      and messages' = "[UserMsg ''look around''] @ AssistantToolCalls two_calls # ?gouts"
      and w' = "[]" and tenv = "picky_td []" and outs = ?outs and results = ?outs]
  from th [THEN conjunct1, THEN mp, OF g]
  have ga: "answers two_calls ?gouts" by simp
  have a: "answers two_calls ?outs"
    by (rule th [THEN conjunct2, THEN conjunct1, THEN mp, OF t])
  note r = th [THEN conjunct2, THEN conjunct2, THEN conjunct1, THEN mp, OF a]
  have l: "length ?outs = length two_calls" by (rule r [THEN conjunct1])
  have i: "map tool_call_id ?outs = map tc_id two_calls"
    by (rule r [THEN conjunct2, THEN conjunct1])
  have n: "map tool_name ?outs = map tc_name two_calls"
    by (rule r [THEN conjunct2, THEN conjunct2, THEN conjunct1])
  from r [THEN conjunct2, THEN conjunct2, THEN conjunct2, THEN mp, OF d]
  have u: "\<exists>!tc. tc \<in> set two_calls \<and>
      tc_id tc = tool_call_id (ToolMsg ''call_2'' ''get_flights'' (JsonDumps FlightsCatalogue))"
    by simp
  have at: "answered narrated"
    by (rule tool_results_match_requests [where env = "scripted_gm narration"
          and tools = "[RollDiceTool]" and w = "[]" and history = ?h
          and final = "Some ''You rolled a four.''" and transcript = narrated
          and ?w2.0 = "[(2, Some [RollDiceTool]), (5, Some [RollDiceTool])]",
          THEN conjunct2, THEN conjunct2, THEN conjunct2, THEN conjunct1, THEN mp,
          OF run, THEN conjunct2, THEN mp, OF ah])
  have sb: "started_but_last journey_transcript"
    using tool_results_match_requests [where py = ascii_python and tenv = "picky_td journey"
          and td = "fresh_designer []" and reply = journey_plan and td' = td1,
          THEN conjunct2, THEN conjunct2, THEN conjunct2, THEN conjunct2, THEN conjunct1,
          THEN mp, OF conjI [OF st pr]]
    unfolding tr .
  have sb2: "started_but_last journey_transcript"
    using tool_results_match_requests [where py = ascii_python and tenv = "picky_td journey"
          and td = "TravelDesigner_init []" and user_input = "''somewhere warm''"
          and reply = journey_plan and td' = td2,
          THEN conjunct2, THEN conjunct2, THEN conjunct2, THEN conjunct2, THEN conjunct2,
          THEN mp, OF ps]
    unfolding ts .
  from g have g': "gm_round (scripted_gm []) [] [UserMsg ''look around''] two_calls =
     (Inr [UserMsg ''look around'', AssistantToolCalls two_calls,
           ToolMsg ''call_1'' ''roll_dice'' (Text ''Dice rolls: [4] (Total: 4)''),
           ToolMsg ''call_2'' ''get_flights'' (Text ''Error: Unknown function get_flights'')], [])"
    by simp
  show ?thesis
    by (intro conjI) (rule g' ga t a l i n d u run ah at st rt sc sb)+
qed

text \<open>
  The claim as written fails in two ways. Two requests that share an identifier are
  answered by two results with that identifier, so each result's identifier is that of
  both requests. And when the arguments of a request of the travel designer do not
  decode, \<open>process_request\<close> returns the error text and leaves the request in the
  transcript with no result behind it.
\<close>

theorem unanswered_requests_counterexample:
  "map tc_id twin_calls = [''call_1'', ''call_1''] \<and>
   gm_round (scripted_gm []) [] [] twin_calls =
     (Inr [AssistantToolCalls twin_calls,
           ToolMsg ''call_1'' ''roll_dice'' (Text ''Dice rolls: [4] (Total: 4)''),
           ToolMsg ''call_1'' ''generate_event'' (Text ''The path forks in two directions'')], []) \<and>
   left_behind
     (start_conversation ascii_python
        (picky_td [Inr (text_reply ''Destination: Rome''), Inr (requests broken_call)])
        (TravelDesigner_init []) ''somewhere old'') =
     Some (emoji_cross @ '' Error: Expecting value'',
           [SystemMsg (ag_instructions booking_agent), UserMsg ''somewhere old'',
            AssistantMsg (Some ''Destination: Rome''),
            UserMsg (''Destination confirmed: Rome\<newline>Origin: New York\<newline>'' @
                     ''Departure Date: 2026-11-10\<newline>Return Date: 2026-11-17\<newline>'' @
                     ''Please book flights and hotels.''),
            AssistantToolCalls broken_call],
           [(2, None), (4, Some all_tools)])"
  by code_simp

section \<open>The extent of a payload\<close>

text \<open>
  C6 (as amended). In the game master, for a text whose first family present carries a
  text payload (\<open>HANDOFF_MONSTER\<close>, \<open>HANDOFF_ITEM\<close>, \<open>UPDATE_LOCATION\<close>, \<open>ADD_ITEM\<close>),
  the display text is the trimmed text in front of the marker's first occurrence, and the
  stored payload is the trimmed text between that occurrence and the next occurrence of
  the same marker, or the end of the text: all of the rest of the text when the marker
  does not occur again, line breaks and later lines included. Only
  \<open>extract_destination\<close> keeps just the part of that text up to the next line break,
  trimmed; it returns the payload and no display text.
\<close>

theorem payload_extent:
  "(first_family r = Some f \<and>
    (f = HandoffMonster \<or> f = HandoffItem \<or> f = UpdateLocation \<or> f = AddItem) \<longrightarrow>
      (\<exists>gm'. process_response py gm r = Inr (gm', py_strip py (before (marker f) r)) \<and>
             stored_payload f gm' = Some (py_strip py (before (marker f) (after (marker f) r))) \<and>
             r = before (marker f) r @ marker f @ after (marker f) r \<and>
             (\<not> contains (marker f) (after (marker f) r) \<longrightarrow>
                stored_payload f gm' = Some (py_strip py (after (marker f) r))))) \<and>
   (contains ''Destination:'' msg \<longrightarrow>
      extract_destination py (Some msg) =
        Some (py_strip py (before ''\<newline>'' (before ''Destination:'' (after ''Destination:'' msg)))) \<and>
      msg = before ''Destination:'' msg @ ''Destination:'' @ after ''Destination:'' msg)"
proof (intro conjI impI)
  assume a: "first_family r = Some f \<and>
    (f = HandoffMonster \<or> f = HandoffItem \<or> f = UpdateLocation \<or> f = AddItem)"
  then have ff: "first_family r = Some f" by simp
  have dec: "r = before (marker f) r @ marker f @ after (marker f) r"
    using first_family_contains [OF ff] by (rule before_after_decompose)
  have whole: "\<not> contains (marker f) (after (marker f) r) \<Longrightarrow>
      before (marker f) (after (marker f) r) = after (marker f) r"
    by (rule before_absent)
  from a consider "f = HandoffMonster" | "f = HandoffItem" | "f = UpdateLocation" | "f = AddItem"
    by blast
  then have "\<exists>gm'. process_response py gm r = Inr (gm', py_strip py (before (marker f) r)) \<and>
           stored_payload f gm' = Some (py_strip py (before (marker f) (after (marker f) r)))"
    by cases
      (simp_all add: process_response_family [OF ff] marker_effect_def stored_payload_def
         payload_text_def display_text_def)
  with dec whole
  show "\<exists>gm'. process_response py gm r = Inr (gm', py_strip py (before (marker f) r)) \<and>
             stored_payload f gm' = Some (py_strip py (before (marker f) (after (marker f) r))) \<and>
             r = before (marker f) r @ marker f @ after (marker f) r \<and>
             (\<not> contains (marker f) (after (marker f) r) \<longrightarrow>
                stored_payload f gm' = Some (py_strip py (after (marker f) r)))"
    by metis
next
  assume "contains ''Destination:'' msg"
  then show "extract_destination py (Some msg) =
        Some (py_strip py (before ''\<newline>'' (before ''Destination:'' (after ''Destination:'' msg))))"
    by (rule extract_destination_marker)
next
  assume "contains ''Destination:'' msg"
  then show "msg = before ''Destination:'' msg @ ''Destination:'' @ after ''Destination:'' msg"
    by (rule before_after_decompose)
qed

text \<open>
  The round trip of the specification: \<open>HANDOFF_ITEM: Ancient Key\<close> stores exactly
  \<open>Ancient Key\<close>; and a destination followed by a second line.
\<close>

theorem payload_extent_witness:
  "first_family ''You find it. HANDOFF_ITEM: Ancient Key'' = Some HandoffItem \<and>
   contains ''Destination:'' ''Destination: Paris\<newline>A city of light.'' \<and>
   (\<exists>gm'. process_response ascii_python GameMaster_init ''You find it. HANDOFF_ITEM: Ancient Key'' =
            Inr (gm', ''You find it.'') \<and>
          stored_payload HandoffItem gm' = Some ''Ancient Key'') \<and>
   extract_destination ascii_python (Some ''Destination: Paris\<newline>A city of light.'') = Some ''Paris''"
proof -
  let ?r = "''You find it. HANDOFF_ITEM: Ancient Key''"
  let ?m = "''Destination: Paris\<newline>A city of light.''"
  have f: "first_family ?r = Some HandoffItem" by code_simp
  have c: "contains ''Destination:'' ?m" by code_simp
  have d: "py_strip ascii_python (before (marker HandoffItem) ?r) = ''You find it.''" by code_simp
  have p: "py_strip ascii_python (before (marker HandoffItem) (after (marker HandoffItem) ?r)) = ''Ancient Key''"
    by code_simp
  have q: "py_strip ascii_python (before ''\<newline>'' (before ''Destination:'' (after ''Destination:'' ?m))) = ''Paris''"
    by code_simp
  note th = payload_extent [where py = ascii_python and r = ?r and f = HandoffItem
      and gm = GameMaster_init and msg = ?m]
  from th [THEN conjunct1] f
  have "\<exists>gm'. process_response ascii_python GameMaster_init ?r = Inr (gm', py_strip ascii_python (before (marker HandoffItem) ?r)) \<and>
      stored_payload HandoffItem gm' =
        Some (py_strip ascii_python (before (marker HandoffItem) (after (marker HandoffItem) ?r)))"
    by blast
  then have g: "\<exists>gm'. process_response ascii_python GameMaster_init ?r = Inr (gm', ''You find it.'') \<and>
      stored_payload HandoffItem gm' = Some ''Ancient Key''"
    unfolding d p .
  from th [THEN conjunct2, THEN mp, OF c, THEN conjunct1]
  have e: "extract_destination ascii_python (Some ?m) = Some ''Paris''"
    unfolding q .
  show ?thesis
    by (intro conjI) (rule f c g e)+
qed

text \<open>
  The claim as written fails in the game master: the line behind the monster's name is
  part of the stored payload.
\<close>

theorem payload_line_counterexample:
  "process_response ascii_python GameMaster_init ''A roar. HANDOFF_MONSTER: Goblin\<newline>It snarls at you.'' =
     Inr (\<lparr>state = \<lparr>player_health = 100, player_inventory = [],
                     current_location = ''Forest Entrance'', game_over = False,
                     combat_active = True, monster = Some ''Goblin\<newline>It snarls at you.'',
                     item_discovered = None, last_action = []\<rparr>,
           current_agent = MonsterAgent, agent_name = ''Monster''\<rparr>,
          ''A roar.'')"
  by code_simp

section \<open>The destination of the travel designer\<close>

lemma extract_destination_no_marker:
  assumes "\<not> contains ''Destination:'' msg" and "msg \<noteq> []"
  shows "\<exists>d. extract_destination py (Some msg) = Some d \<and> d \<noteq> []"
proof -
  let ?lines = "filter (\<lambda>l. l \<noteq> []) (map (py_strip py) (split ''\<newline>'' msg))"
  show ?thesis
  proof (cases ?lines)
    case Nil
    with assms show ?thesis by (simp add: extract_destination_def)
  next
    case (Cons l ls)
    then have "l \<in> set ?lines" by simp
    then have "l \<noteq> []" by simp
    with Cons assms show ?thesis by (simp add: extract_destination_def)
  qed
qed

lemma extract_destination_falsy:
  "(extract_destination py reply = None \<or> extract_destination py reply = Some []) \<longleftrightarrow>
   (reply = None \<or> reply = Some [] \<or>
    (\<exists>msg. reply = Some msg \<and> contains ''Destination:'' msg \<and>
       py_strip py (before ''\<newline>'' (before ''Destination:'' (after ''Destination:'' msg))) = []))"
proof (cases reply)
  case None
  then show ?thesis by (simp add: extract_destination_def)
next
  case (Some msg)
  show ?thesis
  proof (cases "msg = []")
    case True
    with Some show ?thesis by (simp add: extract_destination_def)
  next
    case False
    show ?thesis
    proof (cases "contains ''Destination:'' msg")
      case True
      with Some False show ?thesis by (simp add: extract_destination_marker)
    next
      case no: False
      from extract_destination_no_marker [OF no False, where py = py] Some False no
      show ?thesis by auto
    qed
  qed
qed

lemma extract_destination_not_None: "msg \<noteq> [] \<Longrightarrow> extract_destination py (Some msg) \<noteq> None"
  using extract_destination_marker [of msg py] extract_destination_no_marker [of msg py]
  by (cases "contains ''Destination:'' msg") auto

lemma process_request_could_not:
  assumes "call_openai py env td = (Inr response, td1)"
    and "tool_calls response = []"
    and "ag_name (td_current_agent td1) = ''Destination Specialist''"
    and "extract_destination py (content response) = None \<or>
         extract_destination py (content response) = Some []"
  shows "process_request py env td =
           Some (could_not_determine,
                 td1\<lparr>td_messages := td_messages td1 @ [AssistantMsg (content response)],
                     full_plan := full_plan td1 @ [(''Destination Specialist'', content response)]\<rparr>)"
  using assms
  by (subst process_request.simps) (auto simp: Let_def)

lemma process_request_hands_off:
  assumes "call_openai py env td = (Inr response, td1)"
    and "tool_calls response = []"
    and "ag_name (td_current_agent td1) = ''Destination Specialist''"
    and "extract_destination py (content response) = Some destination"
    and "destination \<noteq> []"
  shows "process_request py env td =
           process_request py env
             (td1\<lparr>td_messages :=
                    (td_messages td1 @ [AssistantMsg (content response)])
                      [0 := SystemMsg (ag_instructions booking_agent)] @
                    [UserMsg (''Destination confirmed: '' @ destination @ ''\<newline>'' @
                              ''Origin: New York\<newline>'' @
                              ''Departure Date: '' @ departure_date env @ ''\<newline>'' @
                              ''Return Date: '' @ return_date env @ ''\<newline>'' @
                              ''Please book flights and hotels.'')],
                  full_plan := full_plan td1 @ [(''Destination Specialist'', content response)],
                  user_preferences := (user_preferences td1)(''destination'' \<mapsto> destination),
                  td_current_agent := booking_agent\<rparr>)"
  using assms
  apply (subst process_request.simps)
  apply (simp add: Let_def handoff_to_agent_def)
  apply (rule arg_cong [where f = "process_request py env"])
  apply (rule TravelDesigner.equality)
  apply simp_all
  done

text \<open>
  C10 (as amended). For every reply that is neither \<open>None\<close> nor empty,
  \<open>extract_destination\<close> returns a string, never \<open>None\<close>. That string is empty exactly
  when the reply contains \<open>Destination:\<close> and the text behind its first occurrence, up
  to the next line break, is blank. So the branch \<open>Could not determine destination\<close> of
  \<open>process_request\<close> is taken exactly when the final reply of the Destination Specialist
  is \<open>None\<close>, empty, or has such a blank payload; otherwise the destination is stored
  and the run goes on with the Booking Specialist.
\<close>

theorem destination_error_branch:
  "(msg \<noteq> [] \<longrightarrow> extract_destination py (Some msg) \<noteq> None) \<and>
   ((extract_destination py reply = None \<or> extract_destination py reply = Some []) \<longleftrightarrow>
    (reply = None \<or> reply = Some [] \<or>
     (\<exists>m. reply = Some m \<and> contains ''Destination:'' m \<and>
        py_strip py (before ''\<newline>'' (before ''Destination:'' (after ''Destination:'' m))) = []))) \<and>
   (call_openai py env td = (Inr response, td1) \<and> tool_calls response = [] \<and>
    ag_name (td_current_agent td1) = ''Destination Specialist'' \<longrightarrow>
      (if extract_destination py (content response) = None \<or>
          extract_destination py (content response) = Some []
       then process_request py env td =
              Some (could_not_determine,
                    td1\<lparr>td_messages := td_messages td1 @ [AssistantMsg (content response)],
                        full_plan := full_plan td1 @
                                       [(''Destination Specialist'', content response)]\<rparr>)
       else \<exists>td'. process_request py env td = process_request py env td' \<and>
                  td_current_agent td' = booking_agent \<and>
                  user_preferences td' ''destination'' = extract_destination py (content response)))"
proof (intro conjI impI)
  assume "msg \<noteq> []"
  then show "extract_destination py (Some msg) \<noteq> None" by (rule extract_destination_not_None)
next
  show "(extract_destination py reply = None \<or> extract_destination py reply = Some []) \<longleftrightarrow>
    (reply = None \<or> reply = Some [] \<or>
     (\<exists>m. reply = Some m \<and> contains ''Destination:'' m \<and>
        py_strip py (before ''\<newline>'' (before ''Destination:'' (after ''Destination:'' m))) = []))"
    by (rule extract_destination_falsy)
next
  assume a: "call_openai py env td = (Inr response, td1) \<and> tool_calls response = [] \<and>
    ag_name (td_current_agent td1) = ''Destination Specialist''"
  show "if extract_destination py (content response) = None \<or>
          extract_destination py (content response) = Some []
       then process_request py env td =
              Some (could_not_determine,
                    td1\<lparr>td_messages := td_messages td1 @ [AssistantMsg (content response)],
                        full_plan := full_plan td1 @
                                       [(''Destination Specialist'', content response)]\<rparr>)
       else \<exists>td'. process_request py env td = process_request py env td' \<and>
                  td_current_agent td' = booking_agent \<and>
                  user_preferences td' ''destination'' = extract_destination py (content response)"
  proof (cases "extract_destination py (content response) = None \<or>
          extract_destination py (content response) = Some []")
    case True
    with a process_request_could_not [of py env td response td1] show ?thesis by simp
  next
    case False
    then obtain d where d: "extract_destination py (content response) = Some d" "d \<noteq> []"
      by (cases "extract_destination py (content response)") auto
    from a have c: "call_openai py env td = (Inr response, td1)" "tool_calls response = []"
      "ag_name (td_current_agent td1) = ''Destination Specialist''" by simp_all
    note h = process_request_hands_off [OF c d]
    have "\<exists>td'. process_request py env td = process_request py env td' \<and>
                  td_current_agent td' = booking_agent \<and>
                  user_preferences td' ''destination'' = Some d"
      by (rule exI, intro conjI, rule h) simp_all
    with False d show ?thesis by simp
  qed
qed

text \<open>
  The claim as written fails: the reply \<open>Destination:\<close> followed by the city on the next
  line is not empty, yet the extracted destination is, and the error branch is taken.
\<close>

theorem blank_destination_counterexample:
  "extract_destination ascii_python (Some ''Destination:\<newline>Paris'') = Some [] \<and>
   map_option fst
     (start_conversation ascii_python (always_td (Inr (text_reply ''Destination:\<newline>Paris'')))
        (TravelDesigner_init (0::nat)) ''a city trip'') =
     Some could_not_determine"
  by code_simp

theorem destination_error_branch_witness:
  "''Paris'' \<noteq> [] \<and> extract_destination ascii_python (Some ''Paris'') \<noteq> None \<and>
   call_openai ascii_python blank_env (fresh_designer (0::nat)) =
     (Inr (text_reply ''Destination:''), (fresh_designer (0::nat))\<lparr>td_world := 1, td_trace := [ApiCall]\<rparr>) \<and>
   tool_calls (text_reply ''Destination:'') = [] \<and>
   ag_name (td_current_agent ((fresh_designer (0::nat))\<lparr>td_world := 1, td_trace := [ApiCall]\<rparr>)) =
     ''Destination Specialist'' \<and>
   extract_destination ascii_python (content (text_reply ''Destination:'')) = Some [] \<and>
   process_request ascii_python blank_env (fresh_designer (0::nat)) =
     Some (could_not_determine,
           (fresh_designer (0::nat))\<lparr>td_world := 1, td_trace := [ApiCall],
             td_messages := td_messages (fresh_designer (0::nat)) @ [AssistantMsg (Some ''Destination:'')],
             full_plan := [(''Destination Specialist'', Some ''Destination:'')]\<rparr>)"
proof -
  let ?td1 = "(fresh_designer (0::nat))\<lparr>td_world := 1, td_trace := [ApiCall]\<rparr>"
  have n: "''Paris'' \<noteq> []" by simp
  have c: "call_openai ascii_python blank_env (fresh_designer (0::nat)) = (Inr (text_reply ''Destination:''), ?td1)"
    by (simp add: call_openai_def blank_env_def fresh_designer_def TravelDesigner_init_def
          always_td_def upt_conv_Cons)
  have t: "tool_calls (text_reply ''Destination:'') = []" by (simp add: text_reply_def)
  have a: "ag_name (td_current_agent ?td1) = ''Destination Specialist''"
    by (simp add: fresh_designer_def TravelDesigner_init_def destination_agent_def create_agent_def)
  have e: "extract_destination ascii_python (content (text_reply ''Destination:'')) = Some []" by code_simp
  have f: "full_plan (fresh_designer (0::nat)) = []" by (simp add: fresh_designer_def TravelDesigner_init_def)
  have k: "content (text_reply ''Destination:'') = Some ''Destination:''" by (simp add: text_reply_def)
  note th = destination_error_branch [where py = ascii_python and msg = "''Paris''" and env = blank_env
      and td = "fresh_designer (0::nat)" and response = "text_reply ''Destination:''" and ?td1.0 = ?td1]
  have p: "extract_destination ascii_python (Some ''Paris'') \<noteq> None"
    by (rule th [THEN conjunct1, THEN mp, OF n])
  from th [THEN conjunct2, THEN conjunct2, THEN mp, OF conjI [OF c conjI [OF t a]]] e
  have "process_request ascii_python blank_env (fresh_designer (0::nat)) =
     Some (could_not_determine,
           ?td1\<lparr>td_messages := td_messages ?td1 @ [AssistantMsg (content (text_reply ''Destination:''))],
               full_plan := full_plan ?td1 @
                 [(''Destination Specialist'', content (text_reply ''Destination:''))]\<rparr>)"
    by simp
  then have r: "process_request ascii_python blank_env (fresh_designer (0::nat)) =
     Some (could_not_determine,
           (fresh_designer (0::nat))\<lparr>td_world := 1, td_trace := [ApiCall],
             td_messages := td_messages (fresh_designer (0::nat)) @ [AssistantMsg (Some ''Destination:'')],
             full_plan := [(''Destination Specialist'', Some ''Destination:'')]\<rparr>)"
    by (simp add: f k)
  show ?thesis
    by (intro conjI) (rule n p c t a e r)+
qed

end
